theory Spec2Isabelle
  imports Main "HOL-Library.Char_ord" "HOL-Library.List_Lexorder"
begin

section \<open>The applet runtime of pixlet (runtime/applet.go)\<close>

text \<open>
  A shallow embedding of \<^verbatim>\<open>runtime/applet.go\<close>. The Starlark interpreter, the schema
  package, the capability modules and the Go standard library are collaborators of the
  file: what they compute is a field of the record \<open>collaborators\<close>, and every theorem
  holds for all collaborators. What \<^verbatim>\<open>applet.go\<close> itself does (the order of checks, the
  error sites, the state it updates) is written out. \<^verbatim>\<open>NewApplet\<close>, \<^verbatim>\<open>RunTests\<close>,
  \<^verbatim>\<open>WithSecretDecryptionKey\<close> and \<^verbatim>\<open>WithPrintDisabled\<close> are left out: they add nothing
  to the load and the calls below but a file set of one file, a test reporter, a
  decrypter and a print function.
\<close>

subsection \<open>Starlark values\<close>

text \<open>\<^verbatim>\<open>render.Root\<close>, opaque here.\<close>

datatype root = RenderRoot nat

text \<open>
  \<^verbatim>\<open>*starlark.Function\<close>: \<^verbatim>\<open>Name()\<close>, \<^verbatim>\<open>NumParams()\<close>, \<^verbatim>\<open>Position().String()\<close> and the
  compiled body, opaque.
\<close>

datatype sfunction = Fn (Name: string) (NumParams: nat) (Position: string) (code: nat)

text \<open>
  \<^verbatim>\<open>starlark.Value\<close>, by the dynamic types that \<^verbatim>\<open>applet.go\<close> tells apart:
  \<^verbatim>\<open>starlark.String\<close>, \<^verbatim>\<open>*starlark.List\<close>, \<^verbatim>\<open>*starlark.Function\<close>, the conversion
  \<^verbatim>\<open>AppletConfig(config)\<close>, a value that implements \<^verbatim>\<open>render_runtime.Rootable\<close> (with
  what its \<^verbatim>\<open>Type()\<close> and \<^verbatim>\<open>AsRenderRoot()\<close> return), and any other value (with what
  its \<^verbatim>\<open>Type()\<close> returns).
\<close>

datatype "value" =
    VString string
  | VList "value list"
  | VFunction sfunction
  | VAppletConfig "(string \<times> string) list"
  | VRootable string root
  | VOther string

fun Type :: "value \<Rightarrow> string" where
  "Type (VString s) = ''string''"
| "Type (VList vs) = ''list''"
| "Type (VFunction f) = ''function''"
| "Type (VAppletConfig c) = ''AppletConfig''"
| "Type (VRootable t r) = t"
| "Type (VOther t) = t"

text \<open>\<^verbatim>\<open>starlark.AsString\<close>: the type assertion \<^verbatim>\<open>x.(String)\<close>.\<close>

fun AsString :: "value \<Rightarrow> string \<times> bool" where
  "AsString (VString s) = (s, True)"
| "AsString v = ('''', False)"

type_synonym StringDict = "string \<rightharpoonup> value"

text \<open>The type assertion \<^verbatim>\<open>globals[name].(*starlark.Function)\<close>; \<open>None\<close> is the nil pointer.\<close>

definition function_named :: "StringDict \<Rightarrow> string \<Rightarrow> sfunction option" where
  "function_named g name = (case g name of Some (VFunction f) \<Rightarrow> Some f | _ \<Rightarrow> None)"

subsection \<open>Formatting\<close>

definition digit :: "nat \<Rightarrow> char" where
  "digit d = ''0123456789'' ! d"

text \<open>The verb \<^verbatim>\<open>%d\<close> on a non-negative int.\<close>

function decimal :: "nat \<Rightarrow> string" where
  "decimal n = (if n < 10 then [digit n] else decimal (n div 10) @ [digit (n mod 10)])"
  by pat_completeness auto
termination
  by (relation "measure id") auto

declare decimal.simps [simp del]

text \<open>\<^verbatim>\<open>strings.Join\<close> and \<^verbatim>\<open>strings.HasSuffix\<close>.\<close>

fun Join :: "string list \<Rightarrow> string \<Rightarrow> string" where
  "Join [] sep = ''''"
| "Join [x] sep = x"
| "Join (x # y # ys) sep = x @ sep @ Join (y # ys) sep"

definition HasSuffix :: "string \<Rightarrow> string \<Rightarrow> bool" where
  "HasSuffix s suf = (length suf \<le> length s \<and> drop (length s - length suf) s = suf)"

subsection \<open>Errors\<close>

text \<open>
  One constructor for each \<^verbatim>\<open>fmt.Errorf\<close> of the file, holding its operands, and two for
  errors that come from outside it: \<open>ExternalError\<close> is an error value of a collaborator
  with its message, \<open>CannotLoad\<close> is the interpreter's report that the load callback
  failed on a module (go.starlark.net formats it \<^verbatim>\<open>cannot load %s: %v\<close>).
  \<open>EvalBacktrace\<close> holds the message already formatted: the file passes the backtrace
  to \<^verbatim>\<open>fmt.Errorf\<close> as the format itself.
\<close>

datatype error =
    ExternalError string
  | CannotLoad string error
  | PanicWhileRunning string string
  | EvalBacktrace string
  | CallError string string string
  | NotRoots string
  | NotRootsAt string nat
  | NoExportedHandler string
  | CallingSchemaHandler string error
  | SerializingSchema error
  | NotStringLike string
  | UnexpectedHandler string
  | NoMain string
  | PanicWhileExecuting string string
  | CircularDependency "string list" string
  | Reading string error
  | ModuleNotLoaded string
  | ExecFileError error
  | MultipleMain string string
  | MultipleSchema string string string
  | CallingSchemaFunction string error
  | ParsingSchema string error
  | SerializingSchemaFor string error
  | InvalidModule string

text \<open>The message of an error, \<^verbatim>\<open>err.Error()\<close>.\<close>

fun Error :: "error \<Rightarrow> string" where
  "Error (ExternalError m) = m"
| "Error (CannotLoad module e) = ''cannot load '' @ module @ '': '' @ Error e"
| "Error (PanicWhileRunning ident r) = ''panic while running '' @ ident @ '': '' @ r"
| "Error (EvalBacktrace m) = m"
| "Error (CallError name pos m) = ''in '' @ name @ '' at '' @ pos @ '': '' @ m"
| "Error (NotRoots t) =
     ''expected app implementation to return Root(s) but found: '' @ t"
| "Error (NotRootsAt t i) =
     ''expected app implementation to return Root(s) but found: '' @ t
       @ '' (at index '' @ decimal i @ '')''"
| "Error (NoExportedHandler h) = ''no exported handler named '' @ [CHR 0x27] @ h @ [CHR 0x27]"
| "Error (CallingSchemaHandler h e) = ''calling schema handler '' @ h @ '': '' @ Error e"
| "Error (SerializingSchema e) = ''serializing schema to JSON: '' @ Error e"
| "Error (NotStringLike name) =
     ''expected '' @ name @ '' to return a string or string-like value''"
| "Error (UnexpectedHandler h) =
     ''a very unexpected error happened for handler '' @ [CHR 0x22] @ h @ [CHR 0x22]"
| "Error (NoMain ident) = ''no main() function found in '' @ ident"
| "Error (PanicWhileExecuting ident r) = ''panic while executing '' @ ident @ '': '' @ r"
| "Error (CircularDependency chain path) =
     ''circular dependency detected: '' @ Join chain '' -> '' @ '' -> '' @ path"
| "Error (Reading path e) = ''reading '' @ path @ '': '' @ Error e"
| "Error (ModuleNotLoaded path) = ''module '' @ path @ '' not loaded''"
| "Error (ExecFileError e) = ''starlark.ExecFile: '' @ Error e"
| "Error (MultipleMain path other) =
     ''multiple files with a main() function:'' @ [CHR 0x0A] @ ''- '' @ path
       @ [CHR 0x0A] @ ''- '' @ other"
| "Error (MultipleSchema name path other) =
     ''multiple files with a '' @ name @ ''() function:'' @ [CHR 0x0A] @ ''- '' @ path
       @ [CHR 0x0A] @ ''- '' @ other"
| "Error (CallingSchemaFunction ident e) =
     ''calling schema function for '' @ ident @ '': '' @ Error e"
| "Error (ParsingSchema ident e) = ''parsing schema for '' @ ident @ '': '' @ Error e"
| "Error (SerializingSchemaFor ident e) =
     ''serializing schema to JSON for '' @ ident @ '': '' @ Error e"
| "Error (InvalidModule module) = ''invalid module: '' @ module"

text \<open>What a call of a Go function does: it returns, or it panics with a value.\<close>

datatype 'a outcome = Returns 'a | Panics string

definition nil_dereference :: string where
  "nil_dereference = ''runtime error: invalid memory address or nil pointer dereference''"

subsection \<open>Threads, schemas and the collaborators\<close>

text \<open>
  \<^verbatim>\<open>context.Context\<close> and the \<^verbatim>\<open>Print\<close> function of a thread; \<open>DefaultPrint\<close> is the one
  \<^verbatim>\<open>newThread\<close> installs, which prefixes the applet's identifier.
\<close>

datatype "context" = Background | Context nat

datatype print_func = DefaultPrint string | PrintFunc nat

text \<open>
  \<^verbatim>\<open>*starlark.Thread\<close> as \<^verbatim>\<open>newThread\<close> builds it. Its \<^verbatim>\<open>Load\<close> field is not a field here:
  the load callback that \<^verbatim>\<open>ensureLoaded\<close> installs is part of \<open>exec\<close> below.
\<close>

record thread =
  thread_Name :: string
  thread_Print :: print_func
  thread_ctx :: "context"

type_synonym ThreadInitializer = "thread \<Rightarrow> thread"

type_synonym ModuleLoader = "thread \<Rightarrow> string \<Rightarrow> error + StringDict"

text \<open>
  \<^verbatim>\<open>schema.Schema\<close> as the file uses it: the handler table, each handler a function and a
  declared return kind, and the rest of the schema, opaque. The kinds are the constants
  \<^verbatim>\<open>schema.ReturnOptions\<close>, \<^verbatim>\<open>schema.ReturnSchema\<close> and \<^verbatim>\<open>schema.ReturnString\<close>;
  \<open>ReturnOther\<close> is any other value of the type, which the switch of
  \<^verbatim>\<open>CallSchemaHandler\<close> leaves to the statement after it.
\<close>

datatype HandlerReturnType = ReturnOptions | ReturnSchema | ReturnString | ReturnOther nat

record SchemaHandler =
  Function :: sfunction
  ReturnType :: HandlerReturnType

record schema =
  Handlers :: "string \<rightharpoonup> SchemaHandler"
  Fields :: string

text \<open>
  What \<^verbatim>\<open>starlark.Call\<close> does: it returns a value, it returns a \<^verbatim>\<open>*starlark.EvalError\<close>
  (with its backtrace), it returns another error (with its message), or it panics.
\<close>

datatype call_outcome =
    CallValue "value"
  | CallEvalError string
  | CallFailed string
  | CallPanic string

text \<open>
  What \<^verbatim>\<open>starlark.ExecFileOptions\<close> does on a source unit, as seen from the load callback:
  the interpreter returns the exported bindings, fails with an error of its own (syntax,
  evaluation), panics, or reaches a \<^verbatim>\<open>load\<close> statement, calls the thread's \<^verbatim>\<open>Load\<close> on
  the module name and goes on from the bindings it gets. When the callback fails, the
  interpreter fails with \<open>CannotLoad\<close>.
\<close>

datatype script =
    Return StringDict
  | Raise string
  | Abort string
  | Load string "StringDict \<Rightarrow> script"

text \<open>The cases of the switch of \<^verbatim>\<open>loadModule\<close>.\<close>

datatype builtin =
    Render | Animation | Schema | Cache | Secret | XPath | Gzip | Zipfile | Base64 | Csv
  | Json | Hash | Hmac | Http | Html | Humanize | Math | Re | Sunrise | Time | Random
  | Qrcode | Assert

text \<open>
  The collaborators: \<^verbatim>\<open>filepath.Clean\<close>; the interpreter on a source unit
  (thread, file name, source) and on a function (thread, function, arguments);
  \<^verbatim>\<open>fmt.Errorf\<close> on a format with no operand; \<^verbatim>\<open>schema.FromStarlark\<close>, \<^verbatim>\<open>json.Marshal\<close> of a
  schema, \<^verbatim>\<open>schema.EncodeOptions\<close> and the constant \<^verbatim>\<open>schema.SchemaFunctionName\<close>; the
  \<^verbatim>\<open>LoadModule\<close> functions of the capability modules, and the \<^verbatim>\<open>Module\<close> values (with their
  \<^verbatim>\<open>Name\<close>) of those the file wraps itself.
\<close>

record collaborators =
  Clean :: "string \<Rightarrow> string"
  ExecFileOptions :: "thread \<Rightarrow> string \<Rightarrow> string \<Rightarrow> script"
  starlark_Call :: "thread \<Rightarrow> sfunction \<Rightarrow> value list \<Rightarrow> call_outcome"
  Errorf0 :: "string \<Rightarrow> string"
  FromStarlark :: "value \<Rightarrow> StringDict \<Rightarrow> error + schema"
  Marshal :: "schema \<Rightarrow> error + string"
  EncodeOptions :: "value \<Rightarrow> error + string"
  SchemaFunctionName :: string
  LoadModule :: "builtin \<Rightarrow> error + StringDict"
  Module_Name :: "builtin \<Rightarrow> string"
  Module :: "builtin \<Rightarrow> value"

subsection \<open>The applet\<close>

text \<open>
  The struct \<^verbatim>\<open>Applet\<close>. A nil pointer is \<open>None\<close>; the empty string and the nil byte
  slice are the empty list.
\<close>

record applet =
  ID :: string
  loader :: "ModuleLoader option"
  initializers :: "ThreadInitializer list"
  globals :: "string \<rightharpoonup> StringDict"
  mainFile :: string
  mainFun :: "sfunction option"
  schemaFile :: string
  schema :: "schema option"
  schemaJSON :: string

type_synonym AppletOption = "applet \<Rightarrow> error + applet"

definition WithModuleLoader :: "ModuleLoader \<Rightarrow> AppletOption" where
  "WithModuleLoader l = (\<lambda>a. Inr (a\<lparr>loader := Some l\<rparr>))"

definition WithPrintFunc :: "print_func \<Rightarrow> AppletOption" where
  "WithPrintFunc p =
     (\<lambda>a. Inr (a\<lparr>initializers := initializers a @ [\<lambda>t. t\<lparr>thread_Print := p\<rparr>]\<rparr>))"

text \<open>\<^verbatim>\<open>newThread\<close>: the initializers are applied in order.\<close>

definition newThread :: "applet \<Rightarrow> context \<Rightarrow> thread" where
  "newThread a ctx =
     fold (\<lambda>init t. init t) (initializers a)
       \<lparr>thread_Name = ID a, thread_Print = DefaultPrint (ID a), thread_ctx = ctx\<rparr>"

subsection \<open>The module registry: \<^verbatim>\<open>loadModule\<close>\<close>

definition builtin_modules :: "(string \<times> builtin) list" where
  "builtin_modules =
     [(''render.star'', Render), (''animation.star'', Animation), (''schema.star'', Schema),
      (''cache.star'', Cache), (''secret.star'', Secret), (''xpath.star'', XPath),
      (''compress/gzip.star'', Gzip), (''compress/zipfile.star'', Zipfile),
      (''encoding/base64.star'', Base64), (''encoding/csv.star'', Csv),
      (''encoding/json.star'', Json), (''hash.star'', Hash), (''hmac.star'', Hmac),
      (''http.star'', Http), (''html.star'', Html), (''humanize.star'', Humanize),
      (''math.star'', Math), (''re.star'', Re), (''sunrise.star'', Sunrise),
      (''time.star'', Time), (''random.star'', Random), (''qrcode.star'', Qrcode),
      (''assert.star'', Assert)]"

text \<open>
  The body of a case: five of them build the bindings themselves and return no error,
  the others return what the module's \<^verbatim>\<open>LoadModule\<close> returns.
\<close>

fun builtin_case :: "collaborators \<Rightarrow> builtin \<Rightarrow> error + StringDict" where
  "builtin_case E Gzip = Inr [Module_Name E Gzip \<mapsto> Module E Gzip]"
| "builtin_case E Zipfile = Inr [''zipfile'' \<mapsto> Module E Zipfile]"
| "builtin_case E Json = Inr [Module_Name E Json \<mapsto> Module E Json]"
| "builtin_case E Math = Inr [Module_Name E Math \<mapsto> Module E Math]"
| "builtin_case E Time = Inr [Module_Name E Time \<mapsto> Module E Time]"
| "builtin_case E b = LoadModule E b"

definition builtin_switch :: "collaborators \<Rightarrow> string \<Rightarrow> error + StringDict" where
  "builtin_switch E module =
     (case map_of builtin_modules module of
        Some b \<Rightarrow> builtin_case E b
      | None \<Rightarrow> Inl (InvalidModule module))"

definition loadModule ::
  "collaborators \<Rightarrow> applet \<Rightarrow> thread \<Rightarrow> string \<Rightarrow> error + StringDict" where
  "loadModule E a thread module =
     (case loader a of
        None \<Rightarrow> builtin_switch E module
      | Some l \<Rightarrow>
          (case l thread module of
             Inr m \<Rightarrow> Inr m
           | Inl err \<Rightarrow> builtin_switch E module))"

subsection \<open>The execution engine: \<^verbatim>\<open>Call\<close>, \<^verbatim>\<open>RunWithConfig\<close>, \<^verbatim>\<open>Run\<close>\<close>

text \<open>
  Each function that reaches the interpreter returns, beside its result, the calls of
  \<^verbatim>\<open>starlark.Call\<close> it made: the function and the arguments of each.
\<close>

type_synonym invocation = "sfunction \<times> value list"

text \<open>
  The body of \<^verbatim>\<open>Call\<close>, under its deferred function. The watcher registered with
  \<^verbatim>\<open>context.AfterFunc\<close> runs beside the call and is part of what the interpreter does
  with the thread's context.
\<close>

definition Call_body ::
  "collaborators \<Rightarrow> applet \<Rightarrow> context \<Rightarrow> sfunction \<Rightarrow> value list
     \<Rightarrow> (error + value) outcome" where
  "Call_body E a ctx callable args =
     (case starlark_Call E (newThread a ctx) callable args of
        CallPanic r \<Rightarrow> Panics r
      | CallEvalError backtrace \<Rightarrow> Returns (Inl (EvalBacktrace (Errorf0 E backtrace)))
      | CallFailed err \<Rightarrow>
          Returns (Inl (CallError (Name callable) (Position callable) err))
      | CallValue resultVal \<Rightarrow> Returns (Inr resultVal))"

text \<open>
  \<^verbatim>\<open>Call\<close>: the deferred function recovers a panic of the body and sets the error
  result.
\<close>

definition Call ::
  "collaborators \<Rightarrow> applet \<Rightarrow> context \<Rightarrow> sfunction \<Rightarrow> value list
     \<Rightarrow> invocation list \<times> (error + value) outcome" where
  "Call E a ctx callable args =
     ([(callable, args)],
      (case Call_body E a ctx callable args of
         Panics r \<Rightarrow> Returns (Inl (PanicWhileRunning (ID a) r))
       | Returns result \<Rightarrow> Returns result))"

text \<open>The zero value of \<^verbatim>\<open>render.Root\<close>, which \<^verbatim>\<open>make\<close> fills the slice with.\<close>

definition zero_Root :: root where
  "zero_Root = RenderRoot 0"

text \<open>The loop over the returned list: \<open>i\<close> is the index, \<open>roots\<close> the slice.\<close>

fun convert_list :: "value list \<Rightarrow> nat \<Rightarrow> root list \<Rightarrow> error + root list" where
  "convert_list [] i roots = Inr roots"
| "convert_list (listVal # rest) i roots =
     (case listVal of
        VRootable t r \<Rightarrow> convert_list rest (i + 1) (roots[i := r])
      | _ \<Rightarrow> Inl (NotRootsAt (Type listVal) i))"

definition convert_return :: "value \<Rightarrow> error + root list" where
  "convert_return returnValue =
     (case returnValue of
        VRootable t r \<Rightarrow> Inr [r]
      | VList vs \<Rightarrow> convert_list vs 0 (replicate (length vs) zero_Root)
      | _ \<Rightarrow> Inl (NotRoots (Type returnValue)))"

definition RunWithConfig ::
  "collaborators \<Rightarrow> applet \<Rightarrow> context \<Rightarrow> (string \<times> string) list
     \<Rightarrow> invocation list \<times> (error + root list) outcome" where
  "RunWithConfig E a ctx config =
     (case mainFun a of
        None \<Rightarrow> ([], Panics nil_dereference)
      | Some main \<Rightarrow>
          (let args = (if NumParams main > 0 then [VAppletConfig config] else []);
               (calls, r) = Call E a ctx main args
           in (calls,
               (case r of
                  Panics p \<Rightarrow> Panics p
                | Returns (Inl err) \<Rightarrow> Returns (Inl err)
                | Returns (Inr returnValue) \<Rightarrow> Returns (convert_return returnValue)))))"

definition Run ::
  "collaborators \<Rightarrow> applet \<Rightarrow> context
     \<Rightarrow> invocation list \<times> (error + root list) outcome" where
  "Run E a ctx = RunWithConfig E a ctx []"

subsection \<open>Schema handler dispatch: \<^verbatim>\<open>CallSchemaHandler\<close>, \<^verbatim>\<open>GetSchema\<close>\<close>

text \<open>Reading a Go map of maps: a missing key gives the nil map.\<close>

definition globals_at :: "applet \<Rightarrow> string \<Rightarrow> StringDict" where
  "globals_at a path = (case globals a path of None \<Rightarrow> Map.empty | Some g \<Rightarrow> g)"

text \<open>The switch on the declared return kind, on the value the handler returned.\<close>

definition encode_result ::
  "collaborators \<Rightarrow> applet \<Rightarrow> string \<Rightarrow> SchemaHandler \<Rightarrow> value
     \<Rightarrow> string \<times> error option" where
  "encode_result E app handlerName handler resultVal =
     (case ReturnType handler of
        ReturnOptions \<Rightarrow>
          (case EncodeOptions E resultVal of
             Inl err \<Rightarrow> ('''', Some err)
           | Inr options \<Rightarrow> (options, None))
      | ReturnSchema \<Rightarrow>
          (case FromStarlark E resultVal (globals_at app (schemaFile app)) of
             Inl err \<Rightarrow> ('''', Some err)
           | Inr sch \<Rightarrow>
               (case Marshal E sch of
                  Inl err \<Rightarrow> ('''', Some (SerializingSchema err))
                | Inr s \<Rightarrow> (s, None)))
      | ReturnString \<Rightarrow>
          (case AsString resultVal of
             (str, ok) \<Rightarrow>
               if \<not> ok then ('''', Some (NotStringLike (Name (Function handler))))
               else (str, None))
      | ReturnOther k \<Rightarrow> ('''', Some (UnexpectedHandler handlerName)))"

text \<open>
  \<^verbatim>\<open>CallSchemaHandler\<close>. The first statement reads \<^verbatim>\<open>app.schema.Handlers\<close>: with no schema
  recorded the pointer is nil and the read panics, outside any \<^verbatim>\<open>recover\<close>.
\<close>

definition CallSchemaHandler ::
  "collaborators \<Rightarrow> applet \<Rightarrow> context \<Rightarrow> string \<Rightarrow> string
     \<Rightarrow> invocation list \<times> (string \<times> error option) outcome" where
  "CallSchemaHandler E app ctx handlerName parameter =
     (case schema app of
        None \<Rightarrow> ([], Panics nil_dereference)
      | Some sch \<Rightarrow>
          (case Handlers sch handlerName of
             None \<Rightarrow> ([], Returns ('''', Some (NoExportedHandler handlerName)))
           | Some handler \<Rightarrow>
               (let (calls, r) = Call E app ctx (Function handler) [VString parameter]
                in (calls,
                    (case r of
                       Panics p \<Rightarrow> Panics p
                     | Returns (Inl err) \<Rightarrow>
                         Returns ('''', Some (CallingSchemaHandler handlerName err))
                     | Returns (Inr resultVal) \<Rightarrow>
                         Returns (encode_result E app handlerName handler resultVal))))))"

definition GetSchema :: "applet \<Rightarrow> string" where
  "GetSchema app = schemaJSON app"

subsection \<open>The virtual file set\<close>

text \<open>
  An \<^verbatim>\<open>fs.FS\<close>: finitely many files, each a path and its bytes, and the directories.
  \<^verbatim>\<open>fs.Stat\<close> succeeds on a file and on a directory, \<^verbatim>\<open>fs.ReadFile\<close> on a file only;
  \<open>read_error\<close> is the message of the error it returns on another path.
\<close>

record fsys =
  files :: "(string \<times> string) list"
  directories :: "string list"
  read_error :: "string \<Rightarrow> string"

definition Stat :: "fsys \<Rightarrow> string \<Rightarrow> bool" where
  "Stat fs path = (path \<in> fst ` set (files fs) \<or> path \<in> set (directories fs))"

definition ReadFile :: "fsys \<Rightarrow> string \<Rightarrow> error + string" where
  "ReadFile fs path =
     (case map_of (files fs) path of
        Some src \<Rightarrow> Inr src
      | None \<Rightarrow> Inl (ExternalError (read_error fs path)))"

text \<open>
  \<^verbatim>\<open>fs.WalkDir\<close> from the root visits the entries in lexical order, and the callback of
  \<^verbatim>\<open>load\<close> returns at once on a directory and on a path whose \<^verbatim>\<open>filepath.Dir\<close> is not
  the root, that is, on a path with a slash. What is left of the walk is the files of the
  root, by name; reading a directory of the file set is taken not to fail.
\<close>

definition root_files :: "fsys \<Rightarrow> string list" where
  "root_files fs = sort (filter (\<lambda>path. CHR ''/'' \<notin> set path) (map fst (files fs)))"

subsection \<open>The module graph loader: \<^verbatim>\<open>ensureLoaded\<close>, \<^verbatim>\<open>load\<close>, \<^verbatim>\<open>NewAppletFromFS\<close>\<close>

text \<open>
  The end of \<^verbatim>\<open>ensureLoaded\<close>, after the interpreter has returned the bindings of the
  file: they are stored, then the entry point and the schema constructor are looked for.
  A panic here is recovered by the deferred function of \<^verbatim>\<open>ensureLoaded\<close>.
\<close>

definition record_main :: "applet \<Rightarrow> string \<Rightarrow> StringDict \<Rightarrow> error + applet" where
  "record_main a path g =
     (case function_named g ''main'' of
        None \<Rightarrow> Inr a
      | Some f \<Rightarrow>
          if mainFile a \<noteq> '''' then Inl (MultipleMain path (mainFile a))
          else Inr (a\<lparr>mainFile := path, mainFun := Some f\<rparr>))"

definition record_schema ::
  "collaborators \<Rightarrow> applet \<Rightarrow> string \<Rightarrow> StringDict \<Rightarrow> applet \<times> error option" where
  "record_schema E a path g =
     (case function_named g (SchemaFunctionName E) of
        None \<Rightarrow> (a, None)
      | Some schemaFun \<Rightarrow>
          if schemaFile a \<noteq> ''''
          then (a, Some (MultipleSchema (SchemaFunctionName E) path (schemaFile a)))
          else
            (let a1 = a\<lparr>schemaFile := path\<rparr> in
             case snd (Call E a1 Background schemaFun []) of
               Panics r \<Rightarrow> (a1, Some (PanicWhileExecuting (ID a1) r))
             | Returns (Inl err) \<Rightarrow> (a1, Some (CallingSchemaFunction (ID a1) err))
             | Returns (Inr schemaVal) \<Rightarrow>
                 (case FromStarlark E schemaVal g of
                    Inl err \<Rightarrow> (a1\<lparr>schema := None\<rparr>, Some (ParsingSchema (ID a1) err))
                  | Inr sch \<Rightarrow>
                      (case Marshal E sch of
                         Inl err \<Rightarrow>
                           (a1\<lparr>schema := Some sch, schemaJSON := ''''\<rparr>,
                            Some (SerializingSchemaFor (ID a1) err))
                       | Inr js \<Rightarrow> (a1\<lparr>schema := Some sch, schemaJSON := js\<rparr>, None)))))"

definition store_globals ::
  "collaborators \<Rightarrow> applet \<Rightarrow> string \<Rightarrow> StringDict \<Rightarrow> applet \<times> error option" where
  "store_globals E a path g =
     (case record_main (a\<lparr>globals := (globals a)(path \<mapsto> g)\<rparr>) path g of
        Inl err \<Rightarrow> (a\<lparr>globals := (globals a)(path \<mapsto> g)\<rparr>, Some err)
      | Inr a1 \<Rightarrow> record_schema E a1 path g)"

text \<open>What the interpreter's run of a file comes to.\<close>

datatype exec_result = ExecGlobals StringDict | ExecError error | ExecPanic string

text \<open>The strict suffixes of a script: what the interpreter may go on with after a load.\<close>

inductive_set script_sub :: "(script \<times> script) set" where
  "(k g, Load module k) \<in> script_sub"

lemma wf_script_sub: "wf script_sub"
proof (rule wfUNIVI)
  fix P :: "script \<Rightarrow> bool" and s
  assume step: "\<forall>x. (\<forall>y. (y, x) \<in> script_sub \<longrightarrow> P y) \<longrightarrow> P x"
  show "P s"
  proof (induction s)
    case (Return g)
    show ?case using step by (auto elim: script_sub.cases)
  next
    case (Raise m)
    show ?case using step by (auto elim: script_sub.cases)
  next
    case (Abort r)
    show ?case using step by (auto elim: script_sub.cases)
  next
    case (Load module k)
    have "\<forall>y. (y, Load module k) \<in> script_sub \<longrightarrow> P y"
      using Load by (auto elim: script_sub.cases)
    then show ?case using step by blast
  qed
qed

text \<open>
  \<^verbatim>\<open>ensureLoaded\<close>, and \<open>exec\<close>: the interpreter running the file on the thread whose
  \<^verbatim>\<open>Load\<close> is the closure of \<^verbatim>\<open>ensureLoaded\<close>. The closure is the \<open>Load\<close> equation of \<open>exec\<close>:
  a module that exists in the file set is loaded by \<^verbatim>\<open>ensureLoaded\<close> with the current
  chain, another one is left to \<^verbatim>\<open>loadModule\<close>. The applet is updated in place, so it is
  passed along and returned, also with an error. The deferred \<^verbatim>\<open>recover\<close> of
  \<^verbatim>\<open>ensureLoaded\<close> turns a panic of the interpreter into \<open>PanicWhileExecuting\<close>.
\<close>

function ensureLoaded ::
  "collaborators \<Rightarrow> fsys \<Rightarrow> applet \<Rightarrow> string \<Rightarrow> string list \<Rightarrow> applet \<times> error option"
and exec ::
  "collaborators \<Rightarrow> fsys \<Rightarrow> applet \<Rightarrow> thread \<Rightarrow> string list \<Rightarrow> script
     \<Rightarrow> applet \<times> exec_result"
where
  "ensureLoaded E fs a path0 currentlyLoading =
     (if globals a (Clean E path0) \<noteq> None then (a, None)
      else if Clean E path0 \<in> set currentlyLoading
      then (a, Some (CircularDependency currentlyLoading (Clean E path0)))
      else
        (case ReadFile fs (Clean E path0) of
           Inl err \<Rightarrow> (a, Some (Reading (Clean E path0) err))
         | Inr src \<Rightarrow>
             (case exec E fs a (newThread a Background)
                     (currentlyLoading @ [Clean E path0])
                     (ExecFileOptions E (newThread a Background) (ID a) src) of
                (a1, ExecPanic r) \<Rightarrow> (a1, Some (PanicWhileExecuting (ID a1) r))
              | (a1, ExecError err) \<Rightarrow> (a1, Some (ExecFileError err))
              | (a1, ExecGlobals g) \<Rightarrow> store_globals E a1 (Clean E path0) g)))"
| "exec E fs a thread currentlyLoading (Return g) = (a, ExecGlobals g)"
| "exec E fs a thread currentlyLoading (Raise m) = (a, ExecError (ExternalError m))"
| "exec E fs a thread currentlyLoading (Abort r) = (a, ExecPanic r)"
| "exec E fs a thread currentlyLoading (Load module k) =
     (if Stat fs (Clean E module)
      then
        (case ensureLoaded E fs a (Clean E module) currentlyLoading of
           (a1, Some err) \<Rightarrow> (a1, ExecError (CannotLoad module err))
         | (a1, None) \<Rightarrow>
             (case globals a1 (Clean E module) of
                None \<Rightarrow> (a1, ExecError (CannotLoad module (ModuleNotLoaded (Clean E module))))
              | Some g \<Rightarrow> exec E fs a1 thread currentlyLoading (k g)))
      else
        (case loadModule E a thread module of
           Inl err \<Rightarrow> (a, ExecError (CannotLoad module err))
         | Inr g \<Rightarrow> exec E fs a thread currentlyLoading (k g)))"
  by pat_completeness auto

text \<open>
  Termination: a nested \<^verbatim>\<open>ensureLoaded\<close> runs a file that is not on the chain and puts
  it there, so the files off the chain get fewer; between two loads the interpreter goes
  on with a suffix of the script.
\<close>

definition load_measure ::
  "collaborators \<times> fsys \<times> applet \<times> string \<times> string list
     + collaborators \<times> fsys \<times> applet \<times> thread \<times> string list \<times> script
   \<Rightarrow> nat \<times> nat \<times> script" where
  "load_measure x =
     (case x of
        Inl (E, fs, a, path0, chain) \<Rightarrow>
          (card (fst ` set (files fs) - set chain), 0, Return Map.empty)
      | Inr (E, fs, a, thread, chain, s) \<Rightarrow>
          (card (fst ` set (files fs) - set chain), 1, s))"

lemma ReadFile_Inr_files: "ReadFile fs path = Inr src \<Longrightarrow> path \<in> fst ` set (files fs)"
  by (auto simp: ReadFile_def split: option.splits dest: map_of_SomeD intro: rev_image_eqI)

lemma card_chain_less:
  "path \<in> fst ` set (files fs) \<Longrightarrow> path \<notin> set chain \<Longrightarrow>
   card (fst ` set (files fs) - set (chain @ [path])) < card (fst ` set (files fs) - set chain)"
proof -
  assume a: "path \<in> fst ` set (files fs)" "path \<notin> set chain"
  have "fst ` set (files fs) - set (chain @ [path]) \<subset> fst ` set (files fs) - set chain"
    using a by auto
  then show ?thesis by (intro psubset_card_mono) auto
qed

lemma load_measure_exec:
  assumes "ReadFile fs path = Inr src" and "path \<notin> set chain"
  shows "(Inr (E, fs, a, thread, chain @ [path], s), Inl (E, fs, a', path0, chain))
    \<in> inv_image (less_than <*lex*> less_than <*lex*> script_sub) load_measure"
proof -
  have "card (fst ` set (files fs) - set (chain @ [path])) < card (fst ` set (files fs) - set chain)"
    using assms by (intro card_chain_less ReadFile_Inr_files)
  then show ?thesis
    unfolding load_measure_def in_inv_image by (simp del: set_append)
qed

termination ensureLoaded
  apply (relation "inv_image (less_than <*lex*> less_than <*lex*> script_sub) load_measure")
  subgoal by (intro wf_inv_image wf_lex_prod wf_less_than wf_script_sub)
  subgoal by (rule load_measure_exec)
  subgoal by (simp add: load_measure_def)
  subgoal by (simp add: load_measure_def script_sub.intros)
  subgoal by (simp add: load_measure_def script_sub.intros)
  done

declare ensureLoaded.simps [simp del]

text \<open>
  \<^verbatim>\<open>load\<close>: the callback on each file of the root, in the order of the walk, stopping at
  the first error; then the test for the entry point.
\<close>

fun walk :: "collaborators \<Rightarrow> fsys \<Rightarrow> applet \<Rightarrow> string list \<Rightarrow> applet \<times> error option" where
  "walk E fs a [] = (a, None)"
| "walk E fs a (path # rest) =
     (if \<not> HasSuffix path ''.star'' then walk E fs a rest
      else
        (case ensureLoaded E fs a path [] of
           (a1, Some err) \<Rightarrow> (a1, Some err)
         | (a1, None) \<Rightarrow> walk E fs a1 rest))"

definition load :: "collaborators \<Rightarrow> fsys \<Rightarrow> applet \<Rightarrow> applet \<times> error option" where
  "load E fs a =
     (case walk E fs a (root_files fs) of
        (a1, Some err) \<Rightarrow> (a1, Some err)
      | (a1, None) \<Rightarrow>
          if mainFun a1 = None then (a1, Some (NoMain (ID a1))) else (a1, None))"

text \<open>\<^verbatim>\<open>NewAppletFromFS\<close>: with an error no applet is returned.\<close>

fun apply_options :: "AppletOption list \<Rightarrow> applet \<Rightarrow> error + applet" where
  "apply_options [] a = Inr a"
| "apply_options (opt # opts) a =
     (case opt a of
        Inl err \<Rightarrow> Inl err
      | Inr a1 \<Rightarrow> apply_options opts a1)"

definition empty_applet :: "string \<Rightarrow> applet" where
  "empty_applet ident =
     \<lparr>ID = ident, loader = None, initializers = [], globals = Map.empty, mainFile = '''',
      mainFun = None, schemaFile = '''', schema = None, schemaJSON = ''''\<rparr>"

definition NewAppletFromFS ::
  "collaborators \<Rightarrow> string \<Rightarrow> fsys \<Rightarrow> AppletOption list \<Rightarrow> error + applet" where
  "NewAppletFromFS E ident fs opts =
     (case apply_options opts (empty_applet ident) of
        Inl err \<Rightarrow> Inl err
      | Inr a \<Rightarrow>
          (case load E fs a of
             (a1, Some err) \<Rightarrow> Inl err
           | (a1, None) \<Rightarrow> Inr a1))"

section \<open>What the statements are written with\<close>

text \<open>
  A value conforms to the rootable capability; a value is a list; the list of the
  rootable values with the given types and roots; the arguments \<^verbatim>\<open>RunWithConfig\<close> builds.
\<close>

fun Rootable :: "value \<Rightarrow> bool" where
  "Rootable (VRootable t r) = True"
| "Rootable v = False"

fun is_List :: "value \<Rightarrow> bool" where
  "is_List (VList vs) = True"
| "is_List v = False"

definition rootables :: "(string \<times> root) list \<Rightarrow> value list" where
  "rootables trs = map (\<lambda>(t, r). VRootable t r) trs"

definition main_args :: "sfunction \<Rightarrow> (string \<times> string) list \<Rightarrow> value list" where
  "main_args main config = (if NumParams main > 0 then [VAppletConfig config] else [])"

subsection \<open>A test interpreter\<close>

text \<open>
  Collaborators to run the definitions on: an interpreter that knows a handful of
  functions by their code and a handful of source texts.
\<close>

definition test_Call :: "thread \<Rightarrow> sfunction \<Rightarrow> value list \<Rightarrow> call_outcome" where
  "test_Call thread f args =
     (if code f = 0 then CallValue (VRootable ''Root'' (RenderRoot 1))
      else if code f = 1 then
        CallValue (VList [VRootable ''Root'' (RenderRoot 1), VString ''x'',
                          VRootable ''Root'' (RenderRoot 2)])
      else if code f = 2 then
        CallValue (VList [VRootable ''Root'' (RenderRoot 1), VRootable ''Root'' (RenderRoot 2)])
      else if code f = 3 then CallValue (VOther ''NoneType'')
      else if code f = 4 then CallPanic ''index out of range''
      else if code f = 5 then CallValue (VString ''derp'')
      else if code f = 6 then CallValue (VOther ''Schema'')
      else if code f = 7 then
        (if args = [] then CallValue (VOther ''NoneType'')
         else CallValue (VRootable ''Root'' (RenderRoot 7)))
      else CallFailed ''unknown function'')"

definition test_main :: "nat \<Rightarrow> sfunction" where
  "test_main c = Fn ''main'' 0 ''main.star:1:5'' c"

definition test_ExecFile :: "thread \<Rightarrow> string \<Rightarrow> string \<Rightarrow> script" where
  "test_ExecFile thread name src =
     (if src = ''def main'' then Return [''main'' \<mapsto> VFunction (test_main 0)]
      else if src = ''def main, get_schema'' then
        Return [''main'' \<mapsto> VFunction (test_main 0),
                ''get_schema'' \<mapsto> VFunction (Fn ''get_schema'' 0 ''main.star:5:5'' 6)]
      else if src = ''x = 1'' then Return [''x'' \<mapsto> VOther ''int'']
      else if src = ''load a'' then Load ''a.star'' (\<lambda>g. Return Map.empty)
      else if src = ''load b'' then Load ''b.star'' (\<lambda>g. Return Map.empty)
      else if src = ''load render, b'' then
        Load ''render.star'' (\<lambda>r. Load ''b.star'' (\<lambda>g. Return Map.empty))
      else if src = ''load lib/b'' then Load ''lib/b.star'' (\<lambda>g. Return Map.empty)
      else Raise ''syntax error'')"

definition test_schema :: schema where
  "test_schema =
     \<lparr>Handlers = [''get_options'' \<mapsto>
                    \<lparr>Function = Fn ''get_options'' 1 ''main.star:9:5'' 3,
                     ReturnType = ReturnString\<rparr>],
      Fields = ''location''\<rparr>"

text \<open>
  The test collaborators. Their \<^verbatim>\<open>schema.FromStarlark\<close> makes the test schema of a schema
  value, and reads a string as the description of the fields, so that two values of the
  schema constructor give two schemas.
\<close>

definition test :: collaborators where
  "test =
     \<lparr>Clean = (\<lambda>path. path),
      ExecFileOptions = test_ExecFile,
      starlark_Call = test_Call,
      Errorf0 = (\<lambda>format. format),
      FromStarlark =
        (\<lambda>v g. case v of VString s \<Rightarrow> Inr (test_schema\<lparr>Fields := s\<rparr>)
                | _ \<Rightarrow> Inr test_schema),
      Marshal = (\<lambda>sch. Inr (''{fields: '' @ Fields sch @ ''}'')),
      EncodeOptions = (\<lambda>v. Inl (ExternalError ''not a list of options'')),
      SchemaFunctionName = ''get_schema'',
      LoadModule = (\<lambda>b. Inr Map.empty),
      Module_Name = (\<lambda>b. ''module''),
      Module = (\<lambda>b. VOther ''module'')\<rparr>"

text \<open>An applet with the entry point \<open>main\<close> and the test schema.\<close>

definition test_applet :: "sfunction \<Rightarrow> applet" where
  "test_applet main =
     (empty_applet ''test'')\<lparr>mainFile := ''main.star'', mainFun := Some main,
        schemaFile := ''main.star'', schema := Some test_schema\<rparr>"

text \<open>\<^verbatim>\<open>strings.Contains\<close>: what it is for a message to name a string.\<close>

fun Contains :: "string \<Rightarrow> string \<Rightarrow> bool" where
  "Contains [] sub = (sub = [])"
| "Contains (c # cs) sub = (take (length sub) (c # cs) = sub \<or> Contains cs sub)"

text \<open>File sets for the test interpreter, and an override loader that knows one module.\<close>

definition test_fs :: "(string \<times> string) list \<Rightarrow> string list \<Rightarrow> fsys" where
  "test_fs fl ds =
     \<lparr>files = fl, directories = ds,
      read_error = (\<lambda>path. ''open '' @ path @ '': file does not exist'')\<rparr>"

definition test_loader :: ModuleLoader where
  "test_loader thread module =
     (if module = ''custom.star'' then Inr [''custom'' \<mapsto> VOther ''module'']
      else Inl (ExternalError ''no such module''))"

text \<open>
  The error at the bottom of an error of \<^verbatim>\<open>ensureLoaded\<close>: each file on the way wraps
  the error of the load callback in \<open>CannotLoad\<close> (the interpreter) and \<open>ExecFileError\<close>
  (\<^verbatim>\<open>ensureLoaded\<close>).
\<close>

fun root_cause :: "error \<Rightarrow> error" where
  "root_cause (ExecFileError e) = root_cause e"
| "root_cause (CannotLoad module e) = root_cause e"
| "root_cause e = e"

text \<open>
  The interpreter, running the script \<open>s\<close> of a file with the applet \<open>a\<close> and the given
  chain, gets to the script \<open>s'\<close> with the applet \<open>a'\<close>: every \<^verbatim>\<open>load\<close> statement on the way
  has succeeded, through the module registry or through \<^verbatim>\<open>ensureLoaded\<close> on a file.
\<close>

inductive runs_to ::
  "collaborators \<Rightarrow> fsys \<Rightarrow> thread \<Rightarrow> string list \<Rightarrow> applet \<Rightarrow> script \<Rightarrow> applet \<Rightarrow> script
     \<Rightarrow> bool"
  for E fs thread chain
where
  here: "runs_to E fs thread chain a s a s"
| through_registry:
    "\<not> Stat fs (Clean E module) \<Longrightarrow> loadModule E a thread module = Inr g \<Longrightarrow>
     runs_to E fs thread chain a (k g) a' s' \<Longrightarrow>
     runs_to E fs thread chain a (Load module k) a' s'"
| through_file:
    "Stat fs (Clean E module) \<Longrightarrow>
     ensureLoaded E fs a (Clean E module) chain = (a1, None) \<Longrightarrow>
     globals a1 (Clean E module) = Some g \<Longrightarrow>
     runs_to E fs thread chain a1 (k g) a' s' \<Longrightarrow>
     runs_to E fs thread chain a (Load module k) a' s'"

text \<open>
  An import cycle met by \<^verbatim>\<open>ensureLoaded\<close> on \<open>path\<close> with the chain \<open>chain\<close>: either the
  file is on the chain and not loaded (the cycle closes here, and the chain and the file
  are what is reported), or the file is read and run, its run gets to a \<^verbatim>\<open>load\<close> of a
  file of the file set, and the cycle is met from there, with \<open>path\<close> on the chain.
\<close>

inductive import_cycle ::
  "collaborators \<Rightarrow> fsys \<Rightarrow> applet \<Rightarrow> string \<Rightarrow> string list \<Rightarrow> string list \<Rightarrow> string \<Rightarrow> bool"
  for E fs
where
  closes:
    "globals a (Clean E path) = None \<Longrightarrow> Clean E path \<in> set chain \<Longrightarrow>
     import_cycle E fs a path chain chain (Clean E path)"
| goes_on:
    "globals a (Clean E path) = None \<Longrightarrow> Clean E path \<notin> set chain \<Longrightarrow>
     ReadFile fs (Clean E path) = Inr src \<Longrightarrow>
     runs_to E fs (newThread a Background) (chain @ [Clean E path]) a
       (ExecFileOptions E (newThread a Background) (ID a) src) a1 (Load module k) \<Longrightarrow>
     Stat fs (Clean E module) \<Longrightarrow>
     import_cycle E fs a1 (Clean E module) (chain @ [Clean E path]) reported target \<Longrightarrow>
     import_cycle E fs a path chain reported target"

text \<open>
  Two root files that import each other, the first after a module of the registry, and a
  file in a directory.
\<close>

definition cyclic_fs :: fsys where
  "cyclic_fs =
     test_fs [(''b.star'', ''load a''), (''a.star'', ''load render, b''),
              (''lib/util.star'', ''x = 1'')] [''.'', ''lib'']"

text \<open>
  Two runs of the interpreter behave the same for a load: all that a load reads of the
  collaborators is the same in both. A load calls functions with no argument only, and
  never encodes options, so the two may differ on every other call.
\<close>

definition same_load_behaviour :: "collaborators \<Rightarrow> collaborators \<Rightarrow> bool" where
  "same_load_behaviour E E' =
     (Clean E = Clean E' \<and> ExecFileOptions E = ExecFileOptions E'
      \<and> (\<forall>thread f. starlark_Call E thread f [] = starlark_Call E' thread f [])
      \<and> Errorf0 E = Errorf0 E' \<and> FromStarlark E = FromStarlark E'
      \<and> Marshal E = Marshal E' \<and> SchemaFunctionName E = SchemaFunctionName E'
      \<and> LoadModule E = LoadModule E' \<and> Module_Name E = Module_Name E'
      \<and> Module E = Module E')"

text \<open>
  The cached JSON is the one of the schema constructor's call: when \<^verbatim>\<open>filepath.Clean\<close>
  never returns the empty string (it returns a dot instead), every loaded file that
  exports a schema constructor is on record, the call of the constructor with no
  argument returned a value, the recorded schema is what \<^verbatim>\<open>schema.FromStarlark\<close> made of
  it, and the cached bytes are what \<^verbatim>\<open>json.Marshal\<close> returned for that schema.
\<close>

definition schema_cached :: "collaborators \<Rightarrow> applet \<Rightarrow> bool" where
  "schema_cached E a =
     ((\<forall>p. Clean E p \<noteq> '''') \<longrightarrow>
      (\<forall>path g f.
         globals a path = Some g \<longrightarrow> function_named g (SchemaFunctionName E) = Some f \<longrightarrow>
         schemaFile a \<noteq> ''''
         \<and> (\<exists>v sch. starlark_Call E (newThread a Background) f [] = CallValue v
               \<and> FromStarlark E v g = Inr sch \<and> schema a = Some sch
               \<and> Marshal E sch = Inr (schemaJSON a))))"

text \<open>
  The test collaborators with the \<^verbatim>\<open>filepath.Clean\<close> of the empty path, which is
  \<^verbatim>\<open>.\<close>; the same at another time, when the schema constructor returns another value, as
  one that reads the clock does; and the same with every call that has an argument
  failing, and another encoder of options.
\<close>

definition test_clean :: collaborators where
  "test_clean = test\<lparr>Clean := (\<lambda>path. if path = '''' then ''.'' else path)\<rparr>"

definition test_later :: collaborators where
  "test_later =
     test_clean\<lparr>starlark_Call :=
            (\<lambda>thread f args.
               if code f = 6 then CallValue (VString ''later'') else test_Call thread f args)\<rparr>"

definition test_other :: collaborators where
  "test_other =
     test_clean\<lparr>starlark_Call :=
            (\<lambda>thread f args.
               if args = [] then test_Call thread f args else CallFailed ''cancelled''),
          EncodeOptions := (\<lambda>v. Inr ''[]'')\<rparr>"

text \<open>
  One file set written down in two orders: a root file with an entry point and a schema
  constructor, and a file in a directory.
\<close>

definition schema_fs :: fsys where
  "schema_fs =
     test_fs [(''main.star'', ''def main, get_schema''), (''lib/util.star'', ''x = 1'')]
       [''.'', ''lib'']"

definition schema_fs' :: fsys where
  "schema_fs' =
     test_fs [(''lib/util.star'', ''x = 1''), (''main.star'', ''def main, get_schema'')]
       [''lib'', ''.'']"

text \<open>A recorded schema comes from a loaded file that exports a schema constructor.\<close>

definition schema_constructed :: "collaborators \<Rightarrow> applet \<Rightarrow> bool" where
  "schema_constructed E a =
     (schema a = None
      \<or> (\<exists>path g. globals a path = Some g
            \<and> function_named g (SchemaFunctionName E) \<noteq> None))"

text \<open>
  A root file with no entry point that imports a file of a directory with one; the same
  beside a root file with an entry point.
\<close>

definition nested_main_fs :: fsys where
  "nested_main_fs =
     test_fs [(''a.star'', ''load lib/b''), (''lib/b.star'', ''def main'')] [''.'', ''lib'']"

definition second_main_fs :: fsys where
  "second_main_fs =
     test_fs [(''main.star'', ''def main''), (''z.star'', ''load lib/b''),
              (''lib/b.star'', ''def main'')] [''.'', ''lib'']"

text \<open>A recorded entry point comes from a loaded file that exports a function \<open>main\<close>.\<close>

definition main_recorded :: "applet \<Rightarrow> bool" where
  "main_recorded a =
     (mainFun a = None
      \<or> (\<exists>path g. globals a path = Some g \<and> function_named g ''main'' \<noteq> None))"

section \<open>Result typing of the entry point\<close>

lemma convert_list_rootables:
  "i + length trs \<le> length roots \<Longrightarrow>
   convert_list (rootables trs) i roots =
     Inr (take i roots @ map snd trs @ drop (i + length trs) roots)"
proof (induction trs arbitrary: i roots)
  case Nil
  then show ?case by (simp add: rootables_def)
next
  case (Cons tr trs)
  obtain t r where tr: "tr = (t, r)" by (cases tr)
  have len: "Suc i + length trs \<le> length (roots[i := r])" using Cons.prems by simp
  have "convert_list (rootables (tr # trs)) i roots =
        convert_list (rootables trs) (Suc i) (roots[i := r])"
    by (simp add: rootables_def tr)
  also have "\<dots> = Inr (take (Suc i) (roots[i := r]) @ map snd trs
                      @ drop (Suc i + length trs) (roots[i := r]))"
    using Cons.IH [OF len] .
  also have "take (Suc i) (roots[i := r]) = take i roots @ [r]"
    using Cons.prems by (simp add: take_Suc_conv_app_nth)
  finally show ?case by (simp add: tr)
qed

lemma convert_list_offender:
  "\<not> Rootable x \<Longrightarrow>
   convert_list (rootables trs @ x # rest) i roots = Inl (NotRootsAt (Type x) (i + length trs))"
proof (induction trs arbitrary: i roots)
  case Nil
  then show ?case by (cases x) (simp_all add: rootables_def)
next
  case (Cons tr trs)
  obtain t r where tr: "tr = (t, r)" by (cases tr)
  have "convert_list (rootables (tr # trs) @ x # rest) i roots =
        convert_list (rootables trs @ x # rest) (Suc i) (roots[i := r])"
    by (simp add: rootables_def tr)
  then show ?case using Cons.IH [OF Cons.prems] by simp
qed

lemma convert_return_root: "convert_return (VRootable t r) = Inr [r]"
  by (simp add: convert_return_def)

lemma convert_return_roots: "convert_return (VList (rootables trs)) = Inr (map snd trs)"
proof -
  have "length (rootables trs) = length trs" by (simp add: rootables_def)
  then show ?thesis
    using convert_list_rootables [of 0 trs "replicate (length trs) zero_Root"]
    by (simp add: convert_return_def)
qed

lemma convert_return_offender:
  "\<not> Rootable x \<Longrightarrow>
   convert_return (VList (rootables trs @ x # rest)) = Inl (NotRootsAt (Type x) (length trs))"
  using convert_list_offender [of x trs rest 0] by (simp add: convert_return_def)

lemma convert_return_other:
  "\<not> Rootable v \<Longrightarrow> \<not> is_List v \<Longrightarrow> convert_return v = Inl (NotRoots (Type v))"
  by (cases v) (simp_all add: convert_return_def)

lemma RunWithConfig_value:
  "mainFun a = Some main \<Longrightarrow>
   starlark_Call E (newThread a ctx) main (main_args main config) = CallValue v \<Longrightarrow>
   snd (RunWithConfig E a ctx config) = Returns (convert_return v)"
  by (cases "convert_return v")
     (simp_all add: RunWithConfig_def Call_def Call_body_def main_args_def Let_def)

text \<open>
  C1. When the entry point returns a value \<open>v\<close>: a rootable \<open>v\<close> gives the one-element
  list of its root; a list of rootable values gives their roots, in order; a \<open>v\<close> that
  is neither gives a type error with the type of \<open>v\<close>; a list whose first element that is
  not rootable stands after \<open>trs\<close> rootable ones gives an error with the type of that
  element and the index \<open>length trs\<close>. \<^verbatim>\<open>Run\<close> is \<^verbatim>\<open>RunWithConfig\<close> with no configuration.
\<close>

theorem Run_result_typing:
  assumes "mainFun a = Some main"
    and "starlark_Call E (newThread a ctx) main (main_args main config) = CallValue v"
  shows "(v = VRootable t r \<longrightarrow> snd (RunWithConfig E a ctx config) = Returns (Inr [r]))
    \<and> (v = VList (rootables trs) \<longrightarrow>
         snd (RunWithConfig E a ctx config) = Returns (Inr (map snd trs)))
    \<and> (\<not> Rootable v \<and> \<not> is_List v \<longrightarrow>
         snd (RunWithConfig E a ctx config) = Returns (Inl (NotRoots (Type v)))
         \<and> Error (NotRoots (Type v)) =
             ''expected app implementation to return Root(s) but found: '' @ Type v)
    \<and> (v = VList (rootables trs @ x # rest) \<and> \<not> Rootable x \<longrightarrow>
         snd (RunWithConfig E a ctx config) = Returns (Inl (NotRootsAt (Type x) (length trs)))
         \<and> Error (NotRootsAt (Type x) (length trs)) =
             ''expected app implementation to return Root(s) but found: '' @ Type x
               @ '' (at index '' @ decimal (length trs) @ '')'')"
  using RunWithConfig_value [OF assms]
  by (auto simp: convert_return_root convert_return_roots convert_return_other
      convert_return_offender)

theorem Run_result_typing_witness:
  "snd (RunWithConfig test (test_applet (test_main 0)) Background []) =
     Returns (Inr [RenderRoot 1])
   \<and> snd (RunWithConfig test (test_applet (test_main 2)) Background []) =
       Returns (Inr [RenderRoot 1, RenderRoot 2])
   \<and> snd (RunWithConfig test (test_applet (test_main 3)) Background []) =
       Returns (Inl (NotRoots ''NoneType''))
   \<and> Error (NotRoots ''NoneType'') =
       ''expected app implementation to return Root(s) but found: NoneType''
   \<and> snd (RunWithConfig test (test_applet (test_main 1)) Background []) =
       Returns (Inl (NotRootsAt ''string'' 1))
   \<and> Error (NotRootsAt ''string'' 1) =
       ''expected app implementation to return Root(s) but found: string (at index 1)''"
proof -
  have m: "mainFun (test_applet main) = Some main" for main
    by (simp add: test_applet_def empty_applet_def)
  have c: "starlark_Call test (newThread (test_applet main) Background) main
             (main_args main []) = test_Call (newThread (test_applet main) Background) main
             (main_args main [])" for main
    by (simp add: test_def)
  have c0: "starlark_Call test (newThread (test_applet (test_main 0)) Background) (test_main 0)
             (main_args (test_main 0) []) = CallValue (VRootable ''Root'' (RenderRoot 1))"
    by (simp add: c test_Call_def test_main_def)
  have c1: "starlark_Call test (newThread (test_applet (test_main 1)) Background) (test_main 1)
             (main_args (test_main 1) []) =
            CallValue (VList (rootables [(''Root'', RenderRoot 1)] @ VString ''x''
              # [VRootable ''Root'' (RenderRoot 2)]))"
    by (simp add: c test_Call_def test_main_def rootables_def)
  have c2: "starlark_Call test (newThread (test_applet (test_main 2)) Background) (test_main 2)
             (main_args (test_main 2) []) =
            CallValue (VList (rootables [(''Root'', RenderRoot 1), (''Root'', RenderRoot 2)]))"
    by (simp add: c test_Call_def test_main_def rootables_def)
  have c3: "starlark_Call test (newThread (test_applet (test_main 3)) Background) (test_main 3)
             (main_args (test_main 3) []) = CallValue (VOther ''NoneType'')"
    by (simp add: c test_Call_def test_main_def)
  show ?thesis
    using Run_result_typing [OF m c0, of "''Root''" "RenderRoot 1" "[]" "VString []" "[]"]
      Run_result_typing [OF m c2, of "''Root''" "RenderRoot 1"
        "[(''Root'', RenderRoot 1), (''Root'', RenderRoot 2)]" "VString []" "[]"]
      Run_result_typing [OF m c3, of "''Root''" "RenderRoot 1" "[]" "VString []" "[]"]
      Run_result_typing [OF m c1, of "''Root''" "RenderRoot 1" "[(''Root'', RenderRoot 1)]"
        "VString ''x''" "[VRootable ''Root'' (RenderRoot 2)]"]
    by (simp add: digit_def decimal.simps)
qed

section \<open>The arguments of the entry point\<close>

lemma RunWithConfig_calls:
  "mainFun a = Some main \<Longrightarrow>
   fst (RunWithConfig E a ctx config) = [(main, main_args main config)]"
  by (simp add: RunWithConfig_def Call_def main_args_def Let_def)

text \<open>
  C10. \<^verbatim>\<open>RunWithConfig\<close> makes one call of the interpreter, on the entry point, and its
  result is made of what that call does. When the entry point declares no parameter the
  call has no argument, whatever the configuration, and the result is that of a run with
  no configuration; when it declares one or more the call has one argument, the
  configuration. So the configuration is passed exactly when the entry point declares a
  parameter.
\<close>

theorem RunWithConfig_arguments:
  assumes "mainFun a = Some main"
  shows "(NumParams main = 0 \<longrightarrow>
            fst (RunWithConfig E a ctx config) = [(main, [])]
            \<and> RunWithConfig E a ctx config = RunWithConfig E a ctx []
            \<and> snd (RunWithConfig E a ctx config) =
                (case starlark_Call E (newThread a ctx) main [] of
                   CallValue v \<Rightarrow> Returns (convert_return v)
                 | CallEvalError backtrace \<Rightarrow>
                     Returns (Inl (EvalBacktrace (Errorf0 E backtrace)))
                 | CallFailed err \<Rightarrow>
                     Returns (Inl (CallError (Name main) (Position main) err))
                 | CallPanic r \<Rightarrow> Returns (Inl (PanicWhileRunning (ID a) r))))
    \<and> (0 < NumParams main \<longrightarrow>
          fst (RunWithConfig E a ctx config) = [(main, [VAppletConfig config])]
          \<and> snd (RunWithConfig E a ctx config) =
              (case starlark_Call E (newThread a ctx) main [VAppletConfig config] of
                 CallValue v \<Rightarrow> Returns (convert_return v)
               | CallEvalError backtrace \<Rightarrow>
                   Returns (Inl (EvalBacktrace (Errorf0 E backtrace)))
               | CallFailed err \<Rightarrow>
                   Returns (Inl (CallError (Name main) (Position main) err))
               | CallPanic r \<Rightarrow> Returns (Inl (PanicWhileRunning (ID a) r))))
    \<and> ((fst (RunWithConfig E a ctx config) = [(main, [VAppletConfig config])])
          = (0 < NumParams main))"
proof -
  have same: "NumParams main = 0 \<Longrightarrow> RunWithConfig E a ctx config = RunWithConfig E a ctx []"
    using assms by (simp add: RunWithConfig_def)
  have result: "snd (RunWithConfig E a ctx config) =
      (case starlark_Call E (newThread a ctx) main (main_args main config) of
         CallValue v \<Rightarrow> Returns (convert_return v)
       | CallEvalError backtrace \<Rightarrow> Returns (Inl (EvalBacktrace (Errorf0 E backtrace)))
       | CallFailed err \<Rightarrow> Returns (Inl (CallError (Name main) (Position main) err))
       | CallPanic r \<Rightarrow> Returns (Inl (PanicWhileRunning (ID a) r)))"
    using assms
    by (simp add: RunWithConfig_def Call_def Call_body_def main_args_def Let_def
        split: call_outcome.splits)
  have none: "NumParams main = 0 \<Longrightarrow> main_args main config = []"
    and one: "0 < NumParams main \<Longrightarrow> main_args main config = [VAppletConfig config]"
    by (simp_all add: main_args_def)
  show ?thesis
    using same result none one RunWithConfig_calls [OF assms, of E ctx config]
    by (cases "NumParams main = 0") simp_all
qed

theorem RunWithConfig_arguments_witness:
  "fst (RunWithConfig test (test_applet (Fn ''main'' 0 ''main.star:1:5'' 7)) Background
          [(''city'', ''Oslo'')]) = [(Fn ''main'' 0 ''main.star:1:5'' 7, [])]
   \<and> snd (RunWithConfig test (test_applet (Fn ''main'' 0 ''main.star:1:5'' 7)) Background
          [(''city'', ''Oslo'')]) = Returns (Inl (NotRoots ''NoneType''))
   \<and> fst (RunWithConfig test (test_applet (Fn ''main'' 1 ''main.star:1:5'' 7)) Background
          [(''city'', ''Oslo'')]) =
       [(Fn ''main'' 1 ''main.star:1:5'' 7, [VAppletConfig [(''city'', ''Oslo'')]])]
   \<and> snd (RunWithConfig test (test_applet (Fn ''main'' 1 ''main.star:1:5'' 7)) Background
          [(''city'', ''Oslo'')]) = Returns (Inr [RenderRoot 7])"
proof -
  let ?f0 = "Fn ''main'' 0 ''main.star:1:5'' 7" and ?f1 = "Fn ''main'' 1 ''main.star:1:5'' 7"
  have m: "mainFun (test_applet main) = Some main" for main
    by (simp add: test_applet_def empty_applet_def)
  have n0: "NumParams ?f0 = 0" and n1: "0 < NumParams ?f1"
    by simp_all
  have c0: "starlark_Call test (newThread (test_applet ?f0) Background) ?f0 []
      = CallValue (VOther ''NoneType'')"
    by (simp add: test_def test_Call_def)
  have c1: "starlark_Call test (newThread (test_applet ?f1) Background) ?f1
      [VAppletConfig [(''city'', ''Oslo'')]] = CallValue (VRootable ''Root'' (RenderRoot 7))"
    by (simp add: test_def test_Call_def)
  note t0 = RunWithConfig_arguments [OF m, of ?f0 test Background "[(''city'', ''Oslo'')]"]
  note t1 = RunWithConfig_arguments [OF m, of ?f1 test Background "[(''city'', ''Oslo'')]"]
  have a0: "fst (RunWithConfig test (test_applet ?f0) Background [(''city'', ''Oslo'')])
        = [(?f0, [])]"
    using n0 t0 by blast
  have "snd (RunWithConfig test (test_applet ?f0) Background [(''city'', ''Oslo'')])
        = (case starlark_Call test (newThread (test_applet ?f0) Background) ?f0 [] of
             CallValue v \<Rightarrow> Returns (convert_return v)
           | CallEvalError backtrace \<Rightarrow>
               Returns (Inl (EvalBacktrace (Errorf0 test backtrace)))
           | CallFailed err \<Rightarrow> Returns (Inl (CallError (Name ?f0) (Position ?f0) err))
           | CallPanic r \<Rightarrow> Returns (Inl (PanicWhileRunning (ID (test_applet ?f0)) r)))"
    using n0 t0 by blast
  then have s0: "snd (RunWithConfig test (test_applet ?f0) Background [(''city'', ''Oslo'')])
        = Returns (Inl (NotRoots ''NoneType''))"
    unfolding c0 by (simp add: convert_return_def)
  have a1: "fst (RunWithConfig test (test_applet ?f1) Background [(''city'', ''Oslo'')])
        = [(?f1, [VAppletConfig [(''city'', ''Oslo'')]])]"
    using n1 t1 by blast
  have "snd (RunWithConfig test (test_applet ?f1) Background [(''city'', ''Oslo'')])
        = (case starlark_Call test (newThread (test_applet ?f1) Background) ?f1
                  [VAppletConfig [(''city'', ''Oslo'')]] of
             CallValue v \<Rightarrow> Returns (convert_return v)
           | CallEvalError backtrace \<Rightarrow>
               Returns (Inl (EvalBacktrace (Errorf0 test backtrace)))
           | CallFailed err \<Rightarrow> Returns (Inl (CallError (Name ?f1) (Position ?f1) err))
           | CallPanic r \<Rightarrow> Returns (Inl (PanicWhileRunning (ID (test_applet ?f1)) r)))"
    using n1 t1 by blast
  then have s1: "snd (RunWithConfig test (test_applet ?f1) Background [(''city'', ''Oslo'')])
        = Returns (Inr [RenderRoot 7])"
    unfolding c1 by (simp add: convert_return_def)
  show ?thesis using a0 s0 a1 s1 by simp
qed

section \<open>The recovery boundary of \<^verbatim>\<open>Call\<close>\<close>

text \<open>
  C7. \<^verbatim>\<open>Call\<close> never panics: whatever the interpreter does, it returns. When the
  interpreter panics with \<open>r\<close>, \<^verbatim>\<open>Call\<close> returns the error that names the applet's
  identifier and \<open>r\<close>.
\<close>

theorem Call_recovers:
  "(\<forall>p. snd (Call E a ctx callable args) \<noteq> Panics p)
   \<and> (starlark_Call E (newThread a ctx) callable args = CallPanic r \<longrightarrow>
        snd (Call E a ctx callable args) = Returns (Inl (PanicWhileRunning (ID a) r))
        \<and> Error (PanicWhileRunning (ID a) r) = ''panic while running '' @ ID a @ '': '' @ r)"
  by (simp add: Call_def Call_body_def split: call_outcome.splits outcome.splits)

theorem Call_recovers_witness:
  "starlark_Call test (newThread (test_applet (test_main 4)) Background) (test_main 4) []
     = CallPanic ''index out of range''
   \<and> snd (Call test (test_applet (test_main 4)) Background (test_main 4) []) =
       Returns (Inl (PanicWhileRunning ''test'' ''index out of range''))
   \<and> Error (PanicWhileRunning ''test'' ''index out of range'') =
       ''panic while running test: index out of range''"
proof -
  have c: "starlark_Call test (newThread (test_applet (test_main 4)) Background) (test_main 4) []
     = CallPanic ''index out of range''"
    by (simp add: test_def test_Call_def test_main_def)
  have i: "ID (test_applet (test_main 4)) = ''test''"
    by (simp add: test_applet_def empty_applet_def)
  show ?thesis
    using c i Call_recovers [of test "test_applet (test_main 4)" Background "test_main 4" "[]"
        "''index out of range''"]
    by simp
qed

section \<open>Schema handler dispatch\<close>

text \<open>
  C5. With a schema recorded and a handler name that is not in its handler table,
  \<^verbatim>\<open>CallSchemaHandler\<close> returns the empty string and the error that names the handler
  name, between quotes, and it makes no call of the interpreter.
\<close>

theorem CallSchemaHandler_unknown_handler:
  assumes "schema app = Some sch" and "Handlers sch handlerName = None"
  shows "CallSchemaHandler E app ctx handlerName parameter =
           ([], Returns ('''', Some (NoExportedHandler handlerName)))
    \<and> Error (NoExportedHandler handlerName) =
        ''no exported handler named '' @ [CHR 0x27] @ handlerName @ [CHR 0x27]"
  using assms by (simp add: CallSchemaHandler_def)

theorem CallSchemaHandler_unknown_handler_witness:
  "CallSchemaHandler test (test_applet (test_main 0)) Background ''get_cities'' ''x'' =
     ([], Returns ('''', Some (NoExportedHandler ''get_cities'')))
   \<and> Error (NoExportedHandler ''get_cities'') =
       ''no exported handler named '' @ [CHR 0x27] @ ''get_cities'' @ [CHR 0x27]"
proof -
  have s: "schema (test_applet (test_main 0)) = Some test_schema"
    by (simp add: test_applet_def empty_applet_def)
  have h: "Handlers test_schema ''get_cities'' = None"
    by (simp add: test_schema_def)
  show ?thesis
    using CallSchemaHandler_unknown_handler [OF s h, of test Background "''x''"] by simp
qed

text \<open>
  C4. A handler declared with the plain-string kind whose function returns a value that
  is not a string: \<^verbatim>\<open>CallSchemaHandler\<close> returns the empty string and an error whose
  message is made of the name of the handler's function and a fixed text. The type of
  the returned value is not part of it.
\<close>

theorem CallSchemaHandler_not_string:
  assumes "schema app = Some sch" and "Handlers sch handlerName = Some handler"
    and "ReturnType handler = ReturnString"
    and "starlark_Call E (newThread app ctx) (Function handler) [VString parameter] = CallValue v"
    and "\<not> snd (AsString v)"
  shows "snd (CallSchemaHandler E app ctx handlerName parameter) =
           Returns ('''', Some (NotStringLike (Name (Function handler))))
    \<and> Error (NotStringLike (Name (Function handler))) =
        ''expected '' @ Name (Function handler) @ '' to return a string or string-like value''"
proof -
  have "AsString v = ('''', False)"
    using assms(5) by (cases v) simp_all
  then show ?thesis
    using assms
    by (simp add: CallSchemaHandler_def Call_def Call_body_def encode_result_def)
qed

text \<open>
  The claim as it was written fails on a handler that returns \<open>None\<close>: the message does
  not name the type \<open>NoneType\<close>.
\<close>

theorem CallSchemaHandler_not_string_counterexample:
  "starlark_Call test (newThread (test_applet (test_main 0)) Background)
     (Fn ''get_options'' 1 ''main.star:9:5'' 3) [VString ''x''] = CallValue (VOther ''NoneType'')
   \<and> Type (VOther ''NoneType'') = ''NoneType''
   \<and> snd (CallSchemaHandler test (test_applet (test_main 0)) Background ''get_options'' ''x'')
       = Returns ('''', Some (NotStringLike ''get_options''))
   \<and> \<not> Contains (Error (NotStringLike ''get_options'')) ''NoneType''"
  by (simp add: test_def test_Call_def test_applet_def empty_applet_def test_schema_def
      CallSchemaHandler_def Call_def Call_body_def encode_result_def)

theorem CallSchemaHandler_not_string_witness:
  "snd (CallSchemaHandler test (test_applet (test_main 0)) Background ''get_options'' ''x'')
     = Returns ('''', Some (NotStringLike ''get_options''))
   \<and> Error (NotStringLike ''get_options'') =
       ''expected get_options to return a string or string-like value''"
proof -
  have s: "schema (test_applet (test_main 0)) = Some test_schema"
    by (simp add: test_applet_def empty_applet_def)
  have h: "Handlers test_schema ''get_options'' =
      Some \<lparr>Function = Fn ''get_options'' 1 ''main.star:9:5'' 3, ReturnType = ReturnString\<rparr>"
    by (simp add: test_schema_def)
  have c: "starlark_Call test (newThread (test_applet (test_main 0)) Background)
      (Function \<lparr>Function = Fn ''get_options'' 1 ''main.star:9:5'' 3,
                   ReturnType = ReturnString\<rparr>) [VString ''x'']
      = CallValue (VOther ''NoneType'')"
    by (simp add: test_def test_Call_def)
  show ?thesis
    using CallSchemaHandler_not_string [OF s h _ c] by simp
qed

section \<open>The module registry\<close>

text \<open>
  C6. \<^verbatim>\<open>loadModule\<close> asks the override loader first, when there is one, and returns
  what it returns with no error. With an error of the override, as with no override, the
  result is that of the switch over the built-in names; there, a name that is not in the
  table gives the error that names it.
\<close>

theorem loadModule_resolution:
  "(loader a = Some l \<and> l thread module = Inr m \<longrightarrow> loadModule E a thread module = Inr m)
   \<and> (loader a = Some l \<and> l thread module = Inl err \<longrightarrow>
        loadModule E a thread module = builtin_switch E module)
   \<and> (loader a = None \<longrightarrow> loadModule E a thread module = builtin_switch E module)
   \<and> (map_of builtin_modules module = Some b \<longrightarrow> builtin_switch E module = builtin_case E b)
   \<and> (map_of builtin_modules module = None
        \<and> (loader a = None \<or> loader a = Some l \<and> l thread module = Inl err) \<longrightarrow>
        loadModule E a thread module = Inl (InvalidModule module)
        \<and> Error (InvalidModule module) = ''invalid module: '' @ module)"
  by (auto simp: loadModule_def builtin_switch_def)

theorem loadModule_resolution_witness:
  "loadModule test ((empty_applet ''test'')\<lparr>loader := Some test_loader\<rparr>)
      (newThread (empty_applet ''test'') Background) ''custom.star''
     = Inr [''custom'' \<mapsto> VOther ''module'']
   \<and> loadModule test ((empty_applet ''test'')\<lparr>loader := Some test_loader\<rparr>)
      (newThread (empty_applet ''test'') Background) ''math.star''
     = builtin_case test Math
   \<and> loadModule test ((empty_applet ''test'')\<lparr>loader := Some test_loader\<rparr>)
      (newThread (empty_applet ''test'') Background) ''mathematics.star''
     = Inl (InvalidModule ''mathematics.star'')
   \<and> loadModule test (empty_applet ''test'')
      (newThread (empty_applet ''test'') Background) ''mathematics.star''
     = Inl (InvalidModule ''mathematics.star'')
   \<and> Error (InvalidModule ''mathematics.star'') = ''invalid module: mathematics.star''"
proof -
  let ?a = "(empty_applet ''test'')\<lparr>loader := Some test_loader\<rparr>"
  let ?t = "newThread (empty_applet ''test'') Background"
  have l: "loader ?a = Some test_loader" by simp
  have n: "loader (empty_applet ''test'') = None" by (simp add: empty_applet_def)
  have c: "test_loader ?t ''custom.star'' = Inr [''custom'' \<mapsto> VOther ''module'']"
    by (simp add: test_loader_def)
  have m: "test_loader ?t ''math.star'' = Inl (ExternalError ''no such module'')"
    by (simp add: test_loader_def)
  have u: "test_loader ?t ''mathematics.star'' = Inl (ExternalError ''no such module'')"
    by (simp add: test_loader_def)
  have bm: "map_of builtin_modules ''math.star'' = Some Math"
    by (simp add: builtin_modules_def)
  have bu: "map_of builtin_modules ''mathematics.star'' = None"
    by (simp add: builtin_modules_def)
  have r1: "loadModule test ?a ?t ''custom.star'' = Inr [''custom'' \<mapsto> VOther ''module'']"
    using l c loadModule_resolution [of ?a test_loader ?t "''custom.star''"
        "[''custom'' \<mapsto> VOther ''module'']" test "ExternalError ''no such module''" Math]
    by blast
  have r2: "loadModule test ?a ?t ''math.star'' = builtin_case test Math"
    using l m bm loadModule_resolution [of ?a test_loader ?t "''math.star''"
        "[''custom'' \<mapsto> VOther ''module'']" test "ExternalError ''no such module''" Math]
    by metis
  have r3: "loadModule test ?a ?t ''mathematics.star'' = Inl (InvalidModule ''mathematics.star'')
      \<and> Error (InvalidModule ''mathematics.star'') = ''invalid module: '' @ ''mathematics.star''"
    using l u bu loadModule_resolution [of ?a test_loader ?t "''mathematics.star''"
        "[''custom'' \<mapsto> VOther ''module'']" test "ExternalError ''no such module''" Math]
    by blast
  have r4: "loadModule test (empty_applet ''test'') ?t ''mathematics.star''
      = Inl (InvalidModule ''mathematics.star'')"
    using n bu loadModule_resolution [of "empty_applet ''test''" test_loader ?t
        "''mathematics.star''" "[''custom'' \<mapsto> VOther ''module'']" test
        "ExternalError ''no such module''" Math]
    by blast
  show ?thesis using r1 r2 r3 r4 by simp
qed


section \<open>The cases of \<^verbatim>\<open>ensureLoaded\<close>\<close>

lemma ensureLoaded_loaded:
  "globals a (Clean E path0) = Some g \<Longrightarrow> ensureLoaded E fs a path0 chain = (a, None)"
  by (simp add: ensureLoaded.simps)

lemma ensureLoaded_circular:
  "globals a (Clean E path0) = None \<Longrightarrow> Clean E path0 \<in> set chain \<Longrightarrow>
   ensureLoaded E fs a path0 chain = (a, Some (CircularDependency chain (Clean E path0)))"
  by (simp add: ensureLoaded.simps)

lemma ensureLoaded_unreadable:
  "globals a (Clean E path0) = None \<Longrightarrow> Clean E path0 \<notin> set chain \<Longrightarrow>
   ReadFile fs (Clean E path0) = Inl err \<Longrightarrow>
   ensureLoaded E fs a path0 chain = (a, Some (Reading (Clean E path0) err))"
  by (simp add: ensureLoaded.simps)

lemma ensureLoaded_run:
  "globals a (Clean E path0) = None \<Longrightarrow> Clean E path0 \<notin> set chain \<Longrightarrow>
   ReadFile fs (Clean E path0) = Inr src \<Longrightarrow>
   exec E fs a (newThread a Background) (chain @ [Clean E path0])
     (ExecFileOptions E (newThread a Background) (ID a) src) = (a1, x) \<Longrightarrow>
   ensureLoaded E fs a path0 chain =
     (case x of
        ExecGlobals g \<Rightarrow> store_globals E a1 (Clean E path0) g
      | ExecError err \<Rightarrow> (a1, Some (ExecFileError err))
      | ExecPanic r \<Rightarrow> (a1, Some (PanicWhileExecuting (ID a1) r)))"
  by (simp add: ensureLoaded.simps split: exec_result.splits)

lemma store_globals_globals:
  "store_globals E a path g = (a', r) \<Longrightarrow> globals a' = (globals a)(path \<mapsto> g)"
  by (auto simp: store_globals_def record_main_def record_schema_def Let_def
      split: option.splits if_splits sum.splits outcome.splits)

text \<open>
  A file on the chain is being run: nothing stores its bindings before its own
  \<^verbatim>\<open>ensureLoaded\<close> does.
\<close>

lemma chain_kept:
  "ensureLoaded E fs a path0 chain = (a', r) \<Longrightarrow> p \<in> set chain \<Longrightarrow> globals a p = None
     \<Longrightarrow> globals a' p = None"
  "exec E fs a thread chain s = (a', x) \<Longrightarrow> p \<in> set chain \<Longrightarrow> globals a p = None
     \<Longrightarrow> globals a' p = None"
proof (induction E fs a path0 chain and E fs a thread chain s arbitrary: a' r and a' x
    rule: ensureLoaded_exec.induct)
  case (1 E fs a path0 currentlyLoading)
  show ?case
  proof (cases "globals a (Clean E path0)")
    case (Some g)
    then have "a' = a" using "1.prems"(1) by (simp add: ensureLoaded_loaded)
    then show ?thesis using "1.prems" by simp
  next
    case None
    show ?thesis
    proof (cases "Clean E path0 \<in> set currentlyLoading")
      case True
      then have "a' = a" using None "1.prems"(1) by (simp add: ensureLoaded_circular)
      then show ?thesis using "1.prems" by simp
    next
      case False
      show ?thesis
      proof (cases "ReadFile fs (Clean E path0)")
        case (Inl err)
        then have "a' = a" using None False "1.prems"(1) by (simp add: ensureLoaded_unreadable)
        then show ?thesis using "1.prems" by simp
      next
        case (Inr src)
        obtain a1 x where ex: "exec E fs a (newThread a Background)
            (currentlyLoading @ [Clean E path0])
            (ExecFileOptions E (newThread a Background) (ID a) src) = (a1, x)"
          by (cases "exec E fs a (newThread a Background) (currentlyLoading @ [Clean E path0])
            (ExecFileOptions E (newThread a Background) (ID a) src)")
        have a1: "globals a1 p = None"
          using "1.IH" [OF _ False Inr ex] None "1.prems" by simp
        have res: "(a', r) = (case x of
              ExecGlobals g \<Rightarrow> store_globals E a1 (Clean E path0) g
            | ExecError err \<Rightarrow> (a1, Some (ExecFileError err))
            | ExecPanic r \<Rightarrow> (a1, Some (PanicWhileExecuting (ID a1) r)))"
          using ensureLoaded_run [OF None False Inr ex] "1.prems"(1) by simp
        show ?thesis
        proof (cases x)
          case (ExecGlobals g)
          then have "globals a' = (globals a1)(Clean E path0 \<mapsto> g)"
            using res store_globals_globals [of E a1 "Clean E path0" g a' r] by simp
          moreover have "p \<noteq> Clean E path0" using False "1.prems"(2) by auto
          ultimately show ?thesis using a1 by simp
        next
          case (ExecError err)
          then show ?thesis using res a1 by simp
        next
          case (ExecPanic r)
          then show ?thesis using res a1 by simp
        qed
      qed
    qed
  qed
next
  case (2 E fs a thread currentlyLoading g)
  then show ?case by simp
next
  case (3 E fs a thread currentlyLoading m)
  then show ?case by simp
next
  case (4 E fs a thread currentlyLoading r)
  then show ?case by simp
next
  case (5 E fs a thread currentlyLoading module k)
  show ?case
  proof (cases "Stat fs (Clean E module)")
    case True
    obtain a1 y where el: "ensureLoaded E fs a (Clean E module) currentlyLoading = (a1, y)"
      by (cases "ensureLoaded E fs a (Clean E module) currentlyLoading")
    have a1: "globals a1 p = None"
      using "5.IH"(1) [OF True el] "5.prems" by simp
    show ?thesis
    proof (cases "y = None \<and> globals a1 (Clean E module) \<noteq> None")
      case False
      then have "a' = a1" using True el "5.prems"(1) by (auto split: option.splits)
      then show ?thesis using a1 by simp
    next
      case yes: True
      then obtain g where g: "globals a1 (Clean E module) = Some g" by auto
      have "exec E fs a1 thread currentlyLoading (k g) = (a', x)"
        using True el yes g "5.prems"(1) by simp
      from "5.IH"(2) [OF True el [symmetric] _ g this "5.prems"(2) a1] yes
      show ?thesis by simp
    qed
  next
    case False
    show ?thesis
    proof (cases "loadModule E a thread module")
      case (Inl err)
      then have "a' = a" using False "5.prems"(1) by simp
      then show ?thesis using "5.prems" by simp
    next
      case (Inr g)
      then have "exec E fs a thread currentlyLoading (k g) = (a', x)"
        using False "5.prems"(1) by simp
      from "5.IH"(3) [OF False Inr this "5.prems"(2,3)] show ?thesis .
    qed
  qed
qed

section \<open>Circular imports\<close>

lemma runs_to_exec:
  "runs_to E fs thread chain a s a' s' \<Longrightarrow>
   exec E fs a thread chain s = exec E fs a' thread chain s'"
  by (induction rule: runs_to.induct) simp_all

lemma runs_to_chain_kept:
  "runs_to E fs thread chain a s a' s' \<Longrightarrow> p \<in> set chain \<Longrightarrow> globals a p = None \<Longrightarrow>
   globals a' p = None"
  by (induction rule: runs_to.induct) (auto dest: chain_kept(1))

lemma ReadFile_Stat: "ReadFile fs path = Inr src \<Longrightarrow> Stat fs path"
  by (simp add: Stat_def ReadFile_Inr_files)

text \<open>
  A file whose run gets to a \<^verbatim>\<open>load\<close> on which \<^verbatim>\<open>ensureLoaded\<close> fails: the error is
  wrapped once by the interpreter and once by \<^verbatim>\<open>ensureLoaded\<close>.
\<close>

lemma ensureLoaded_import_fails:
  assumes "globals a (Clean E path) = None" and "Clean E path \<notin> set chain"
    and "ReadFile fs (Clean E path) = Inr src"
    and "runs_to E fs (newThread a Background) (chain @ [Clean E path]) a
           (ExecFileOptions E (newThread a Background) (ID a) src) a1 (Load module k)"
    and "Stat fs (Clean E module)"
    and "ensureLoaded E fs a1 (Clean E module) (chain @ [Clean E path]) = (a2, Some e)"
  shows "ensureLoaded E fs a path chain = (a2, Some (ExecFileError (CannotLoad module e)))"
proof -
  have "exec E fs a (newThread a Background) (chain @ [Clean E path])
          (ExecFileOptions E (newThread a Background) (ID a) src)
        = exec E fs a1 (newThread a Background) (chain @ [Clean E path]) (Load module k)"
    using assms(4) by (rule runs_to_exec)
  also have "\<dots> = (a2, ExecError (CannotLoad module e))"
    using assms(5,6) by simp
  finally show ?thesis
    using ensureLoaded_run [OF assms(1,2,3)] by simp
qed

lemma import_cycle_detected:
  "import_cycle E fs a path chain reported target \<Longrightarrow>
   \<exists>a' e. ensureLoaded E fs a path chain = (a', Some e)
     \<and> root_cause e = CircularDependency reported target"
proof (induction rule: import_cycle.induct)
  case (closes a path chain)
  then show ?case by (simp add: ensureLoaded_circular)
next
  case (goes_on a path chain src a1 module k reported target)
  from goes_on.IH obtain a2 e where
    e: "ensureLoaded E fs a1 (Clean E module) (chain @ [Clean E path]) = (a2, Some e)"
    and rc: "root_cause e = CircularDependency reported target"
    by blast
  have "ensureLoaded E fs a path chain = (a2, Some (ExecFileError (CannotLoad module e)))"
    using goes_on.hyps(1-5) e by (rule ensureLoaded_import_fails)
  then show ?case using rc by simp
qed

lemma import_cycle_chain:
  "import_cycle E fs a path chain reported target \<Longrightarrow>
   target \<in> set reported \<and> (\<exists>rest. reported = chain @ rest)"
  by (induction rule: import_cycle.induct) auto

lemma Error_root_cause: "\<exists>front. Error e = front @ Error (root_cause e)"
proof (induction e rule: root_cause.induct)
  case (1 e)
  then obtain front where "Error e = front @ Error (root_cause e)" by blast
  then have "Error (ExecFileError e) = (''starlark.ExecFile: '' @ front) @ Error (root_cause (ExecFileError e))"
    by simp
  then show ?case by blast
next
  case (2 module e)
  then obtain front where "Error e = front @ Error (root_cause e)" by blast
  then have "Error (CannotLoad module e) =
      (''cannot load '' @ module @ '': '' @ front) @ Error (root_cause (CannotLoad module e))"
    by simp
  then show ?case by blast
qed (rule exI [of _ "[]"], simp)+

lemma walk_append:
  "walk E fs a (ps @ qs) =
     (case walk E fs a ps of
        (a1, Some err) \<Rightarrow> (a1, Some err)
      | (a1, None) \<Rightarrow> walk E fs a1 qs)"
  by (induction ps arbitrary: a) (auto split: prod.splits option.splits)

lemma load_fails_at:
  assumes "apply_options opts (empty_applet ident) = Inr a0"
    and "root_files fs = before @ path # rest"
    and "walk E fs a0 before = (a, None)"
    and "HasSuffix path ''.star''"
    and "ensureLoaded E fs a path [] = (a', Some e)"
  shows "NewAppletFromFS E ident fs opts = Inl e"
  using assms by (simp add: NewAppletFromFS_def load_def walk_append)

text \<open>The cycle of two files, as an instance of \<open>import_cycle\<close>.\<close>

lemma two_file_cycle:
  assumes "Clean E A = A" and "Clean E B = B"
    and "globals a A = None" and "ReadFile fs A = Inr srcA"
    and "runs_to E fs (newThread a Background) [A] a
           (ExecFileOptions E (newThread a Background) (ID a) srcA) a1 (Load mB kB)"
    and "Clean E mB = B" and "A \<noteq> B"
    and "globals a1 B = None" and "ReadFile fs B = Inr srcB"
    and "runs_to E fs (newThread a1 Background) [A, B] a1
           (ExecFileOptions E (newThread a1 Background) (ID a1) srcB) a2 (Load mA kA)"
    and "Clean E mA = A"
  shows "ensureLoaded E fs a A [] =
           (a2, Some (ExecFileError (CannotLoad mB (ExecFileError (CannotLoad mA
                  (CircularDependency [A, B] A))))))"
proof -
  have a1: "globals a1 A = None"
    using runs_to_chain_kept [OF assms(5)] assms(3) by simp
  have a2: "globals a2 A = None"
    using runs_to_chain_kept [OF assms(10)] a1 by simp
  have third: "ensureLoaded E fs a2 (Clean E mA) [A, B] =
      (a2, Some (CircularDependency [A, B] A))"
    using ensureLoaded_circular [of a2 E "Clean E mA" "[A, B]" fs] a2 assms(1,11) by simp
  have second: "ensureLoaded E fs a1 (Clean E mB) [A] =
      (a2, Some (ExecFileError (CannotLoad mA (CircularDependency [A, B] A))))"
    using ensureLoaded_import_fails [of a1 E "Clean E mB" "[A]" fs srcB a2 mA kA a2
        "CircularDependency [A, B] A"]
      assms(1,2,6-11) third ReadFile_Stat [OF assms(4)]
    by simp
  show ?thesis
    using ensureLoaded_import_fails [of a E A "[]" fs srcA a1 mB kB a2
        "ExecFileError (CannotLoad mA (CircularDependency [A, B] A))"]
      assms(1-6) second ReadFile_Stat [OF assms(9)]
    by simp
qed

text \<open>
  C2. The load of an applet gets to the root file \<open>path\<close>: the options are applied, the
  root files before \<open>path\<close> load. When \<^verbatim>\<open>ensureLoaded\<close> meets an import cycle from \<open>path\<close>,
  of any length, the construction fails with an error whose bottom is the
  circular-dependency error; its message ends with the chain of the files being loaded,
  in import order, followed by the file that closes the cycle, which is on the chain.
  For two files \<open>path\<close> and \<open>B\<close> that are not loaded, where the run of \<open>path\<close> gets to a
  \<^verbatim>\<open>load\<close> of \<open>B\<close> and the run of \<open>B\<close> gets to a \<^verbatim>\<open>load\<close> of \<open>path\<close>, the error and its
  message are written out: the chain is \<open>path -> B -> path\<close>.
\<close>

theorem circular_import_fails:
  assumes "apply_options opts (empty_applet ident) = Inr a0"
    and "root_files fs = before @ path # rest"
    and "walk E fs a0 before = (a, None)"
    and "HasSuffix path ''.star''"
  shows "(import_cycle E fs a path [] reported target \<longrightarrow>
           (\<exists>e front. NewAppletFromFS E ident fs opts = Inl e
              \<and> root_cause e = CircularDependency reported target
              \<and> Error e = front @ ''circular dependency detected: ''
                    @ Join reported '' -> '' @ '' -> '' @ target)
           \<and> target \<in> set reported)
    \<and> (Clean E path = path \<and> Clean E B = B \<and> path \<noteq> B
        \<and> globals a path = None \<and> ReadFile fs path = Inr srcA
        \<and> runs_to E fs (newThread a Background) [path] a
             (ExecFileOptions E (newThread a Background) (ID a) srcA) a1 (Load mB kB)
        \<and> Clean E mB = B
        \<and> globals a1 B = None \<and> ReadFile fs B = Inr srcB
        \<and> runs_to E fs (newThread a1 Background) [path, B] a1
             (ExecFileOptions E (newThread a1 Background) (ID a1) srcB) a2 (Load mA kA)
        \<and> Clean E mA = path \<longrightarrow>
        NewAppletFromFS E ident fs opts =
          Inl (ExecFileError (CannotLoad mB (ExecFileError (CannotLoad mA
                 (CircularDependency [path, B] path)))))
        \<and> Error (ExecFileError (CannotLoad mB (ExecFileError (CannotLoad mA
                 (CircularDependency [path, B] path))))) =
            ''starlark.ExecFile: cannot load '' @ mB @ '': starlark.ExecFile: cannot load ''
              @ mA @ '': circular dependency detected: '' @ path @ '' -> '' @ B @ '' -> ''
              @ path)"
proof (intro conjI impI)
  assume cyc: "import_cycle E fs a path [] reported target"
  then obtain a' e where e: "ensureLoaded E fs a path [] = (a', Some e)"
    and rc: "root_cause e = CircularDependency reported target"
    using import_cycle_detected by blast
  obtain front where "Error e = front @ Error (root_cause e)"
    using Error_root_cause by blast
  then have "Error e = front @ ''circular dependency detected: ''
      @ Join reported '' -> '' @ '' -> '' @ target"
    using rc by simp
  moreover have "NewAppletFromFS E ident fs opts = Inl e"
    using assms e by (rule load_fails_at)
  ultimately show "\<exists>e front. NewAppletFromFS E ident fs opts = Inl e
      \<and> root_cause e = CircularDependency reported target
      \<and> Error e = front @ ''circular dependency detected: ''
            @ Join reported '' -> '' @ '' -> '' @ target"
    using rc by blast
  show "target \<in> set reported" using import_cycle_chain [OF cyc] by simp
next
  assume two: "Clean E path = path \<and> Clean E B = B \<and> path \<noteq> B
        \<and> globals a path = None \<and> ReadFile fs path = Inr srcA
        \<and> runs_to E fs (newThread a Background) [path] a
             (ExecFileOptions E (newThread a Background) (ID a) srcA) a1 (Load mB kB)
        \<and> Clean E mB = B
        \<and> globals a1 B = None \<and> ReadFile fs B = Inr srcB
        \<and> runs_to E fs (newThread a1 Background) [path, B] a1
             (ExecFileOptions E (newThread a1 Background) (ID a1) srcB) a2 (Load mA kA)
        \<and> Clean E mA = path"
  then have "ensureLoaded E fs a path [] =
           (a2, Some (ExecFileError (CannotLoad mB (ExecFileError (CannotLoad mA
                  (CircularDependency [path, B] path))))))"
    by (intro two_file_cycle [of E path B a fs srcA a1 mB kB srcB a2 mA kA]) simp_all
  with assms show "NewAppletFromFS E ident fs opts =
          Inl (ExecFileError (CannotLoad mB (ExecFileError (CannotLoad mA
                 (CircularDependency [path, B] path)))))"
    by (rule load_fails_at)
  show "Error (ExecFileError (CannotLoad mB (ExecFileError (CannotLoad mA
                 (CircularDependency [path, B] path))))) =
            ''starlark.ExecFile: cannot load '' @ mB @ '': starlark.ExecFile: cannot load ''
              @ mA @ '': circular dependency detected: '' @ path @ '' -> '' @ B @ '' -> ''
              @ path"
    by simp
qed

lemma cyclic_fs_facts:
  "root_files cyclic_fs = [] @ ''a.star'' # [''b.star'']"
  "ReadFile cyclic_fs ''a.star'' = Inr ''load render, b''"
  "ReadFile cyclic_fs ''b.star'' = Inr ''load a''"
  "\<not> Stat cyclic_fs ''render.star''"
  "Stat cyclic_fs ''a.star''"
  "Stat cyclic_fs ''b.star''"
  by (simp_all add: cyclic_fs_def test_fs_def root_files_def ReadFile_def Stat_def
      less_eq_list_code less_list_code)

lemma cyclic_fs_runs:
  "runs_to test cyclic_fs (newThread (empty_applet ''test'') Background) [''a.star'']
     (empty_applet ''test'')
     (ExecFileOptions test (newThread (empty_applet ''test'') Background)
        (ID (empty_applet ''test'')) ''load render, b'')
     (empty_applet ''test'') (Load ''b.star'' (\<lambda>g. Return Map.empty))"
  "runs_to test cyclic_fs (newThread (empty_applet ''test'') Background) [''a.star'', ''b.star'']
     (empty_applet ''test'')
     (ExecFileOptions test (newThread (empty_applet ''test'') Background)
        (ID (empty_applet ''test'')) ''load a'')
     (empty_applet ''test'') (Load ''a.star'' (\<lambda>g. Return Map.empty))"
proof -
  let ?t = "newThread (empty_applet ''test'') Background"
  have r: "loadModule test (empty_applet ''test'') ?t ''render.star'' = Inr Map.empty"
    by (simp add: loadModule_def empty_applet_def builtin_switch_def builtin_modules_def
        test_def)
  have s: "\<not> Stat cyclic_fs (Clean test ''render.star'')"
    using cyclic_fs_facts(4) by (simp add: test_def)
  have "runs_to test cyclic_fs ?t [''a.star''] (empty_applet ''test'')
      (Load ''render.star'' (\<lambda>r. Load ''b.star'' (\<lambda>g. Return Map.empty)))
      (empty_applet ''test'') (Load ''b.star'' (\<lambda>g. Return Map.empty))"
    by (rule runs_to.through_registry [OF s r]) (rule runs_to.here)
  then show "runs_to test cyclic_fs ?t [''a.star''] (empty_applet ''test'')
     (ExecFileOptions test ?t (ID (empty_applet ''test'')) ''load render, b'')
     (empty_applet ''test'') (Load ''b.star'' (\<lambda>g. Return Map.empty))"
    by (simp add: test_def test_ExecFile_def)
  have "runs_to test cyclic_fs ?t [''a.star'', ''b.star''] (empty_applet ''test'')
      (Load ''a.star'' (\<lambda>g. Return Map.empty))
      (empty_applet ''test'') (Load ''a.star'' (\<lambda>g. Return Map.empty))"
    by (rule runs_to.here)
  then show "runs_to test cyclic_fs ?t [''a.star'', ''b.star''] (empty_applet ''test'')
     (ExecFileOptions test ?t (ID (empty_applet ''test'')) ''load a'')
     (empty_applet ''test'') (Load ''a.star'' (\<lambda>g. Return Map.empty))"
    by (simp add: test_def test_ExecFile_def)
qed

lemma cyclic_fs_cycle:
  "import_cycle test cyclic_fs (empty_applet ''test'') ''a.star'' []
     [''a.star'', ''b.star''] ''a.star''"
proof -
  let ?a = "empty_applet ''test''"
  have c: "Clean test p = p" for p by (simp add: test_def)
  have g: "globals ?a p = None" for p by (simp add: empty_applet_def)
  have "import_cycle test cyclic_fs ?a (Clean test ''a.star'') [''a.star'', ''b.star'']
      [''a.star'', ''b.star''] (Clean test (Clean test ''a.star''))"
    by (rule import_cycle.closes) (simp_all add: c g)
  then have third: "import_cycle test cyclic_fs ?a (Clean test ''a.star'')
      ([''a.star''] @ [Clean test (Clean test ''b.star'')])
      [''a.star'', ''b.star''] ''a.star''"
    by (simp add: c)
  have rb: "runs_to test cyclic_fs (newThread ?a Background)
      ([''a.star''] @ [Clean test (Clean test ''b.star'')]) ?a
      (ExecFileOptions test (newThread ?a Background) (ID ?a) ''load a'')
      ?a (Load ''a.star'' (\<lambda>g. Return Map.empty))"
    using cyclic_fs_runs(2) by (simp add: c)
  have "import_cycle test cyclic_fs ?a (Clean test ''b.star'') [''a.star'']
      [''a.star'', ''b.star''] ''a.star''"
    by (rule import_cycle.goes_on [OF _ _ _ rb _ third])
       (simp_all add: c g cyclic_fs_facts)
  then have second: "import_cycle test cyclic_fs ?a (Clean test ''b.star'')
      ([] @ [Clean test ''a.star'']) [''a.star'', ''b.star''] ''a.star''"
    by (simp add: c)
  have ra: "runs_to test cyclic_fs (newThread ?a Background) ([] @ [Clean test ''a.star'']) ?a
      (ExecFileOptions test (newThread ?a Background) (ID ?a) ''load render, b'')
      ?a (Load ''b.star'' (\<lambda>g. Return Map.empty))"
    using cyclic_fs_runs(1) by (simp add: c)
  show ?thesis
    by (rule import_cycle.goes_on [OF _ _ _ ra _ second])
       (simp_all add: c g cyclic_fs_facts)
qed

theorem circular_import_fails_witness:
  "NewAppletFromFS test ''test'' cyclic_fs [] =
     Inl (ExecFileError (CannotLoad ''b.star'' (ExecFileError (CannotLoad ''a.star''
            (CircularDependency [''a.star'', ''b.star''] ''a.star'')))))
   \<and> Error (ExecFileError (CannotLoad ''b.star'' (ExecFileError (CannotLoad ''a.star''
            (CircularDependency [''a.star'', ''b.star''] ''a.star''))))) =
       ''starlark.ExecFile: cannot load b.star: starlark.ExecFile: cannot load a.star: circular dependency detected: a.star -> b.star -> a.star''
   \<and> import_cycle test cyclic_fs (empty_applet ''test'') ''a.star'' []
         [''a.star'', ''b.star''] ''a.star''"
proof -
  let ?a = "empty_applet ''test''"
  have o: "apply_options [] ?a = Inr ?a" by simp
  have w: "walk test cyclic_fs ?a [] = (?a, None)" by simp
  have h: "HasSuffix ''a.star'' ''.star''" by (simp add: HasSuffix_def)
  have c: "Clean test p = p" for p by (simp add: test_def)
  have g: "globals ?a p = None" for p by (simp add: empty_applet_def)
  note inst = circular_import_fails [OF o cyclic_fs_facts(1) w h,
      where reported = "[''a.star'', ''b.star'']" and target = "''a.star''"
        and B = "''b.star''" and srcA = "''load render, b''" and ?a1.0 = ?a
        and mB = "''b.star''" and kB = "\<lambda>g. Return Map.empty" and srcB = "''load a''"
        and ?a2.0 = ?a and mA = "''a.star''" and kA = "\<lambda>g. Return Map.empty"]
  show ?thesis
    using inst c g cyclic_fs_facts(2,3) cyclic_fs_runs cyclic_fs_cycle by simp
qed

section \<open>What a successful load keeps\<close>

text \<open>
  A property of the applet that \<open>store_globals\<close> keeps whenever it returns no error, on
  a cleaned path that is not loaded, is kept by every load that returns no error.
\<close>

lemma load_invariant:
  assumes step: "\<And>E a path g a'. I E a \<Longrightarrow> globals a (Clean E path) = None \<Longrightarrow>
      store_globals E a (Clean E path) g = (a', None) \<Longrightarrow> I E a'"
  shows "ensureLoaded E fs a path0 chain = (a', None) \<Longrightarrow> I E a \<Longrightarrow> I E a'"
    and "exec E fs a thread chain s = (a', ExecGlobals g) \<Longrightarrow> I E a \<Longrightarrow> I E a'"
proof (induction E fs a path0 chain and E fs a thread chain s arbitrary: a' and a' g
    rule: ensureLoaded_exec.induct)
  case (1 E fs a path0 currentlyLoading)
  show ?case
  proof (cases "globals a (Clean E path0)")
    case (Some g)
    then have "a' = a" using "1.prems"(1) by (simp add: ensureLoaded_loaded)
    then show ?thesis using "1.prems" by simp
  next
    case None
    have notin: "Clean E path0 \<notin> set currentlyLoading"
      using None "1.prems"(1) by (auto simp: ensureLoaded_circular)
    obtain src where src: "ReadFile fs (Clean E path0) = Inr src"
      using None notin "1.prems"(1)
      by (cases "ReadFile fs (Clean E path0)") (auto simp: ensureLoaded_unreadable)
    obtain a1 x where ex: "exec E fs a (newThread a Background)
        (currentlyLoading @ [Clean E path0])
        (ExecFileOptions E (newThread a Background) (ID a) src) = (a1, x)"
      by (cases "exec E fs a (newThread a Background) (currentlyLoading @ [Clean E path0])
        (ExecFileOptions E (newThread a Background) (ID a) src)")
    have res: "(a', None) = (case x of
          ExecGlobals g \<Rightarrow> store_globals E a1 (Clean E path0) g
        | ExecError err \<Rightarrow> (a1, Some (ExecFileError err))
        | ExecPanic r \<Rightarrow> (a1, Some (PanicWhileExecuting (ID a1) r)))"
      using ensureLoaded_run [OF None notin src ex] "1.prems"(1) by simp
    then obtain g where x: "x = ExecGlobals g"
      and st: "store_globals E a1 (Clean E path0) g = (a', None)"
      by (cases x) simp_all
    have "I E a1"
      using "1.IH" [OF _ notin src] None ex x "1.prems"(2) by simp
    moreover have "globals a1 (Clean E path0) = None"
      using chain_kept(2) [OF ex, of "Clean E path0"] None by simp
    ultimately show ?thesis using st step by blast
  qed
next
  case (2 E fs a thread currentlyLoading g)
  then show ?case by simp
next
  case (3 E fs a thread currentlyLoading m)
  then show ?case by simp
next
  case (4 E fs a thread currentlyLoading r)
  then show ?case by simp
next
  case (5 E fs a thread currentlyLoading module k)
  show ?case
  proof (cases "Stat fs (Clean E module)")
    case True
    obtain a1 y where el: "ensureLoaded E fs a (Clean E module) currentlyLoading = (a1, y)"
      by (cases "ensureLoaded E fs a (Clean E module) currentlyLoading")
    have y: "y = None" using True el "5.prems"(1) by (cases y) simp_all
    obtain g' where g': "globals a1 (Clean E module) = Some g'"
      using True el y "5.prems"(1) by (cases "globals a1 (Clean E module)") simp_all
    have ex: "exec E fs a1 thread currentlyLoading (k g') = (a', ExecGlobals g)"
      using True el y g' "5.prems"(1) by simp
    have "I E a1" using "5.IH"(1) [OF True] el y "5.prems"(2) by simp
    then show ?thesis
      using "5.IH"(2) [OF True el [symmetric] y g' ex] by simp
  next
    case False
    obtain g' where g': "loadModule E a thread module = Inr g'"
      using False "5.prems"(1) by (cases "loadModule E a thread module") simp_all
    then have "exec E fs a thread currentlyLoading (k g') = (a', ExecGlobals g)"
      using False "5.prems"(1) by simp
    then show ?thesis using "5.IH"(3) [OF False g'] "5.prems"(2) by simp
  qed
qed

lemma walk_invariant:
  assumes step: "\<And>E a path g a'. I E a \<Longrightarrow> globals a (Clean E path) = None \<Longrightarrow>
      store_globals E a (Clean E path) g = (a', None) \<Longrightarrow> I E a'"
  shows "walk E fs a paths = (a', None) \<Longrightarrow> I E a \<Longrightarrow> I E a'"
proof (induction paths arbitrary: a)
  case Nil
  then show ?case by simp
next
  case (Cons path rest)
  show ?case
  proof (cases "HasSuffix path ''.star''")
    case False
    then show ?thesis using Cons by simp
  next
    case True
    obtain a1 y where el: "ensureLoaded E fs a path [] = (a1, y)"
      by (cases "ensureLoaded E fs a path []")
    have y: "y = None" using True el Cons.prems(1) by (cases y) simp_all
    have el0: "ensureLoaded E fs a path [] = (a1, None)" using el y by simp
    have "I E a1"
      by (rule load_invariant(1) [where I = I, OF _ el0 Cons.prems(2)]) (rule step)
    moreover have "walk E fs a1 rest = (a', None)" using True el y Cons.prems(1) by simp
    ultimately show ?thesis using Cons.IH by blast
  qed
qed

lemma construction_invariant:
  assumes step: "\<And>E a path g a'. I E a \<Longrightarrow> globals a (Clean E path) = None \<Longrightarrow>
      store_globals E a (Clean E path) g = (a', None) \<Longrightarrow> I E a'"
    and "apply_options opts (empty_applet ident) = Inr a0" and "I E a0"
    and "NewAppletFromFS E ident fs opts = Inr app"
  shows "I E app"
proof -
  obtain a1 y where l: "walk E fs a0 (root_files fs) = (a1, y)"
    by (cases "walk E fs a0 (root_files fs)")
  have y: "y = None" and app: "app = a1"
    using assms(2,4) l
    by (cases y; simp add: NewAppletFromFS_def load_def split: if_splits)+
  have l0: "walk E fs a0 (root_files fs) = (app, None)" using l y app by simp
  show ?thesis
    by (rule walk_invariant [where I = I, OF _ l0 assms(3)]) (rule step)
qed

section \<open>Determinism of the load\<close>

text \<open>The load reads the file set through \<^verbatim>\<open>fs.Stat\<close> and \<^verbatim>\<open>fs.ReadFile\<close> only.\<close>

lemma same_reads:
  assumes "ReadFile fs = ReadFile fs'" and "Stat fs = Stat fs'"
  shows "ensureLoaded E fs a path0 chain = ensureLoaded E fs' a path0 chain"
    and "exec E fs a thread chain s = exec E fs' a thread chain s"
  using assms
proof (induction E fs a path0 chain and E fs a thread chain s
    rule: ensureLoaded_exec.induct)
  case (1 E fs a path0 currentlyLoading)
  show ?case
  proof (cases "globals a (Clean E path0) \<noteq> None \<or> Clean E path0 \<in> set currentlyLoading")
    case True
    then show ?thesis by (auto simp: ensureLoaded.simps)
  next
    case False
    show ?thesis
    proof (cases "ReadFile fs (Clean E path0)")
      case (Inl err)
      then show ?thesis
        using False "1.prems"(1) by (simp add: ensureLoaded.simps [of E fs] ensureLoaded.simps [of E fs'])
    next
      case (Inr src)
      have "exec E fs a (newThread a Background) (currentlyLoading @ [Clean E path0])
              (ExecFileOptions E (newThread a Background) (ID a) src)
          = exec E fs' a (newThread a Background) (currentlyLoading @ [Clean E path0])
              (ExecFileOptions E (newThread a Background) (ID a) src)"
        using "1.IH" [OF _ _ Inr "1.prems"] False by simp
      then show ?thesis
        using False Inr "1.prems"(1)
        by (simp add: ensureLoaded.simps [of E fs] ensureLoaded.simps [of E fs'])
    qed
  qed
next
  case (5 E fs a thread currentlyLoading module k)
  show ?case
  proof (cases "Stat fs (Clean E module)")
    case True
    have el: "ensureLoaded E fs a (Clean E module) currentlyLoading
        = ensureLoaded E fs' a (Clean E module) currentlyLoading"
      using "5.IH"(1) [OF True "5.prems"] .
    obtain a1 y where r: "ensureLoaded E fs a (Clean E module) currentlyLoading = (a1, y)"
      by (cases "ensureLoaded E fs a (Clean E module) currentlyLoading")
    show ?thesis
    proof (cases "y = None \<and> globals a1 (Clean E module) \<noteq> None")
      case False
      then show ?thesis
        using True r el "5.prems"(2) by (auto split: option.splits)
    next
      case yes: True
      then obtain g where g: "globals a1 (Clean E module) = Some g" by auto
      have "exec E fs a1 thread currentlyLoading (k g) = exec E fs' a1 thread currentlyLoading (k g)"
        using "5.IH"(2) [OF True r [symmetric] _ g "5.prems"] yes by simp
      then show ?thesis
        using True r el yes g "5.prems"(2) by simp
    qed
  next
    case False
    show ?thesis
    proof (cases "loadModule E a thread module")
      case (Inl err)
      then show ?thesis using False "5.prems"(2) by simp
    next
      case (Inr g)
      then show ?thesis using False "5.prems"(2) "5.IH"(3) [OF False Inr "5.prems"] by simp
    qed
  qed
qed simp_all

lemma same_reads_walk:
  assumes "ReadFile fs = ReadFile fs'" and "Stat fs = Stat fs'"
  shows "walk E fs a paths = walk E fs' a paths"
  by (induction paths arbitrary: a)
     (simp_all add: same_reads(1) [OF assms] split: prod.splits option.splits)

lemma same_files_reads:
  assumes "set (files fs1) = set (files fs2)"
    and "distinct (map fst (files fs1))" and "distinct (map fst (files fs2))"
    and "set (directories fs1) = set (directories fs2)"
    and "read_error fs1 = read_error fs2"
  shows "ReadFile fs1 = ReadFile fs2" and "Stat fs1 = Stat fs2"
    and "root_files fs1 = root_files fs2"
proof -
  have "map_of (files fs1) = map_of (files fs2)"
    using assms(1-3) by (simp add: map_of_inject_set)
  then show "ReadFile fs1 = ReadFile fs2"
    using assms(5) by (simp add: ReadFile_def fun_eq_iff split: option.splits)
  show "Stat fs1 = Stat fs2"
    using assms(1,4) by (auto simp: Stat_def fun_eq_iff)
  let ?r = "\<lambda>fs. filter (\<lambda>path. CHR ''/'' \<notin> set path) (map fst (files fs))"
  have "set (?r fs1) = set (?r fs2)" using assms(1) by auto
  moreover have "distinct (?r fs1)" "distinct (?r fs2)"
    using assms(2,3) by (simp_all add: distinct_map_filter)
  ultimately have "sort (?r fs1) = sort (?r fs2)"
    by (intro sorted_distinct_set_unique) simp_all
  then show "root_files fs1 = root_files fs2" by (simp add: root_files_def)
qed

lemma same_files_construction:
  assumes "set (files fs1) = set (files fs2)"
    and "distinct (map fst (files fs1))" and "distinct (map fst (files fs2))"
    and "set (directories fs1) = set (directories fs2)"
    and "read_error fs1 = read_error fs2"
  shows "NewAppletFromFS E ident fs1 opts = NewAppletFromFS E ident fs2 opts"
proof -
  note r = same_files_reads [OF assms]
  have "load E fs1 a = load E fs2 a" for a
    by (simp add: load_def r(3) same_reads_walk [OF r(1,2)])
  then show ?thesis by (simp add: NewAppletFromFS_def split: sum.splits)
qed

lemma builtin_case_same:
  "LoadModule E = LoadModule E' \<Longrightarrow> Module_Name E = Module_Name E' \<Longrightarrow>
   Module E = Module E' \<Longrightarrow> builtin_case E b = builtin_case E' b"
  by (cases b) simp_all

lemma loadModule_same:
  assumes "same_load_behaviour E E'"
  shows "loadModule E a thread module = loadModule E' a thread module"
proof -
  have "builtin_case E b = builtin_case E' b" for b
    using assms by (intro builtin_case_same) (simp_all add: same_load_behaviour_def)
  then show ?thesis
    by (simp add: loadModule_def builtin_switch_def split: option.splits sum.splits)
qed

lemma Call_same:
  assumes "same_load_behaviour E E'"
  shows "Call E a ctx f [] = Call E' a ctx f []"
proof -
  have "starlark_Call E' (newThread a ctx) f [] = starlark_Call E (newThread a ctx) f []"
    and "Errorf0 E' = Errorf0 E"
    using assms by (simp_all add: same_load_behaviour_def)
  then show ?thesis by (simp add: Call_def Call_body_def split: call_outcome.splits)
qed

lemma record_schema_same:
  assumes "same_load_behaviour E E'"
  shows "record_schema E a path g = record_schema E' a path g"
proof -
  have "FromStarlark E' = FromStarlark E" and "Marshal E' = Marshal E"
    and "SchemaFunctionName E' = SchemaFunctionName E"
    using assms by (simp_all add: same_load_behaviour_def)
  moreover have "Call E' b Background f [] = Call E b Background f []" for b f
    using Call_same [OF assms] by simp
  ultimately show ?thesis
    by (simp add: record_schema_def Let_def
        split: option.splits sum.splits outcome.splits)
qed

lemma store_globals_same:
  "same_load_behaviour E E' \<Longrightarrow> store_globals E a path g = store_globals E' a path g"
  by (simp add: store_globals_def record_schema_same [of E E'] split: sum.splits)

text \<open>
  A load reads of the interpreter only what it does with each file and with the calls
  that have no argument.
\<close>

lemma same_behaviour:
  assumes "same_load_behaviour E E'"
  shows "ensureLoaded E fs a path0 chain = ensureLoaded E' fs a path0 chain"
    and "exec E fs a thread chain s = exec E' fs a thread chain s"
  using assms
proof (induction E fs a path0 chain and E fs a thread chain s
    rule: ensureLoaded_exec.induct)
  case (1 E fs a path0 currentlyLoading)
  have c: "Clean E' = Clean E" and x: "ExecFileOptions E' = ExecFileOptions E"
    using "1.prems" by (simp_all add: same_load_behaviour_def)
  show ?case
  proof (cases "globals a (Clean E path0) \<noteq> None \<or> Clean E path0 \<in> set currentlyLoading")
    case True
    then show ?thesis
      by (auto simp: ensureLoaded.simps [of E] ensureLoaded.simps [of E'] c)
  next
    case False
    show ?thesis
    proof (cases "ReadFile fs (Clean E path0)")
      case (Inl err)
      then show ?thesis
        using False by (simp add: ensureLoaded.simps [of E] ensureLoaded.simps [of E'] c)
    next
      case (Inr src)
      have "exec E fs a (newThread a Background) (currentlyLoading @ [Clean E path0])
              (ExecFileOptions E (newThread a Background) (ID a) src)
          = exec E' fs a (newThread a Background) (currentlyLoading @ [Clean E path0])
              (ExecFileOptions E (newThread a Background) (ID a) src)"
        using "1.IH" [OF _ _ Inr "1.prems"] False by simp
      then show ?thesis
        using False Inr store_globals_same [OF "1.prems"]
        by (simp add: ensureLoaded.simps [of E] ensureLoaded.simps [of E'] c x
            split: prod.splits exec_result.splits)
    qed
  qed
next
  case (5 E fs a thread currentlyLoading module k)
  have c: "Clean E' = Clean E"
    using "5.prems" by (simp add: same_load_behaviour_def)
  show ?case
  proof (cases "Stat fs (Clean E module)")
    case True
    have el: "ensureLoaded E fs a (Clean E module) currentlyLoading
        = ensureLoaded E' fs a (Clean E module) currentlyLoading"
      using "5.IH"(1) [OF True "5.prems"] .
    obtain a1 y where r: "ensureLoaded E fs a (Clean E module) currentlyLoading = (a1, y)"
      by (cases "ensureLoaded E fs a (Clean E module) currentlyLoading")
    show ?thesis
    proof (cases "y = None \<and> globals a1 (Clean E module) \<noteq> None")
      case False
      then show ?thesis
        using True r el c by (auto split: option.splits)
    next
      case yes: True
      then obtain g where g: "globals a1 (Clean E module) = Some g" by auto
      have "exec E fs a1 thread currentlyLoading (k g) = exec E' fs a1 thread currentlyLoading (k g)"
        using "5.IH"(2) [OF True r [symmetric] _ g "5.prems"] yes by simp
      then show ?thesis
        using True r el yes g c by simp
    qed
  next
    case False
    show ?thesis
    proof (cases "loadModule E a thread module")
      case (Inl err)
      then show ?thesis using False c loadModule_same [OF "5.prems", of a thread module] by simp
    next
      case (Inr g)
      then show ?thesis
        using False c loadModule_same [OF "5.prems", of a thread module]
          "5.IH"(3) [OF False Inr "5.prems"] by simp
    qed
  qed
qed simp_all

lemma same_behaviour_construction:
  assumes "same_load_behaviour E E'"
  shows "NewAppletFromFS E ident fs opts = NewAppletFromFS E' ident fs opts"
proof -
  have "walk E fs a paths = walk E' fs a paths" for a paths
    by (induction paths arbitrary: a)
       (simp_all add: same_behaviour(1) [OF assms] split: prod.splits option.splits)
  then have "load E fs a = load E' fs a" for a
    by (simp add: load_def)
  then show ?thesis by (simp add: NewAppletFromFS_def split: sum.splits)
qed

lemma newThread_same:
  "ID a' = ID a \<Longrightarrow> initializers a' = initializers a \<Longrightarrow> newThread a' ctx = newThread a ctx"
  by (simp add: newThread_def)

text \<open>What a store with no error has done.\<close>

lemma record_main_keeps:
  "record_main a path g = Inr a1 \<Longrightarrow>
   ID a1 = ID a \<and> initializers a1 = initializers a \<and> globals a1 = globals a
   \<and> schema a1 = schema a \<and> schemaJSON a1 = schemaJSON a \<and> schemaFile a1 = schemaFile a"
  by (auto simp: record_main_def split: option.splits if_splits)

lemma record_schema_none:
  "function_named g (SchemaFunctionName E) = None \<Longrightarrow> record_schema E a path g = (a, None)"
  by (simp add: record_schema_def)

lemma record_schema_success:
  assumes "record_schema E a path g = (a', None)"
    and "function_named g (SchemaFunctionName E) = Some f"
  shows "schemaFile a = '''' \<and> schemaFile a' = path \<and> ID a' = ID a
    \<and> initializers a' = initializers a \<and> globals a' = globals a
    \<and> (\<exists>v sch. starlark_Call E (newThread a Background) f [] = CallValue v
          \<and> FromStarlark E v g = Inr sch \<and> schema a' = Some sch
          \<and> Marshal E sch = Inr (schemaJSON a'))"
proof -
  have e: "schemaFile a = ''''"
    using assms by (auto simp: record_schema_def split: if_splits)
  let ?a1 = "a\<lparr>schemaFile := path\<rparr>"
  have t: "newThread ?a1 Background = newThread a Background"
    by (simp add: newThread_def)
  obtain v where v: "starlark_Call E (newThread a Background) f [] = CallValue v"
    using assms e
    by (cases "starlark_Call E (newThread a Background) f []")
       (simp_all add: record_schema_def Call_def Call_body_def t)
  then have c: "snd (Call E ?a1 Background f []) = Returns (Inr v)"
    by (simp add: Call_def Call_body_def t)
  obtain sch where sch: "FromStarlark E v g = Inr sch"
    using assms e c by (cases "FromStarlark E v g") (simp_all add: record_schema_def)
  obtain js where js: "Marshal E sch = Inr js"
    using assms e c sch by (cases "Marshal E sch") (simp_all add: record_schema_def)
  have "a' = ?a1\<lparr>schema := Some sch, schemaJSON := js\<rparr>"
    using assms e c sch js by (simp add: record_schema_def)
  then show ?thesis using e v sch js by simp
qed

lemma store_globals_success:
  assumes "store_globals E a path g = (a', None)"
  shows "ID a' = ID a \<and> initializers a' = initializers a
    \<and> globals a' = (globals a)(path \<mapsto> g)
    \<and> (case function_named g (SchemaFunctionName E) of
          None \<Rightarrow>
            schema a' = schema a \<and> schemaJSON a' = schemaJSON a
            \<and> schemaFile a' = schemaFile a
        | Some f \<Rightarrow>
            schemaFile a = '''' \<and> schemaFile a' = path
            \<and> (\<exists>v sch. starlark_Call E (newThread a Background) f [] = CallValue v
                  \<and> FromStarlark E v g = Inr sch \<and> schema a' = Some sch
                  \<and> Marshal E sch = Inr (schemaJSON a')))"
proof -
  let ?a0 = "a\<lparr>globals := (globals a)(path \<mapsto> g)\<rparr>"
  obtain am where m: "record_main ?a0 path g = Inr am"
    and r: "record_schema E am path g = (a', None)"
    using assms by (cases "record_main ?a0 path g") (simp_all add: store_globals_def)
  note k = record_main_keeps [OF m]
  have t: "newThread am Background = newThread a Background"
    using k by (simp add: newThread_def)
  show ?thesis
  proof (cases "function_named g (SchemaFunctionName E)")
    case None
    then have "a' = am" using r by (simp add: record_schema_none)
    then show ?thesis using k None by simp
  next
    case (Some f)
    show ?thesis using record_schema_success [OF r Some] k Some t by simp
  qed
qed

lemma schema_cachedD:
  assumes "schema_cached E a" and "\<forall>p. Clean E p \<noteq> ''''"
    and "globals a path = Some g" and "function_named g (SchemaFunctionName E) = Some f"
  shows "schemaFile a \<noteq> ''''"
    and "\<exists>v sch. starlark_Call E (newThread a Background) f [] = CallValue v
           \<and> FromStarlark E v g = Inr sch \<and> schema a = Some sch
           \<and> Marshal E sch = Inr (schemaJSON a)"
proof -
  have "schemaFile a \<noteq> ''''
      \<and> (\<exists>v sch. starlark_Call E (newThread a Background) f [] = CallValue v
           \<and> FromStarlark E v g = Inr sch \<and> schema a = Some sch
           \<and> Marshal E sch = Inr (schemaJSON a))"
  proof -
    have "\<forall>path g f.
         globals a path = Some g \<longrightarrow> function_named g (SchemaFunctionName E) = Some f \<longrightarrow>
         schemaFile a \<noteq> ''''
         \<and> (\<exists>v sch. starlark_Call E (newThread a Background) f [] = CallValue v
               \<and> FromStarlark E v g = Inr sch \<and> schema a = Some sch
               \<and> Marshal E sch = Inr (schemaJSON a))"
      using assms(1) [unfolded schema_cached_def] assms(2) by (rule mp)
    from this [rule_format, OF assms(3,4)] show ?thesis .
  qed
  then show "schemaFile a \<noteq> ''''"
    and "\<exists>v sch. starlark_Call E (newThread a Background) f [] = CallValue v
           \<and> FromStarlark E v g = Inr sch \<and> schema a = Some sch
           \<and> Marshal E sch = Inr (schemaJSON a)"
    by simp_all
qed

lemma store_globals_cached:
  assumes "schema_cached E a" and "globals a (Clean E path) = None"
    and "store_globals E a (Clean E path) g = (a', None)"
  shows "schema_cached E a'"
  unfolding schema_cached_def
proof (intro impI allI)
  fix p h f
  assume clean: "\<forall>p. Clean E p \<noteq> ''''"
    and p: "globals a' p = Some h" and f: "function_named h (SchemaFunctionName E) = Some f"
  note s = store_globals_success [OF assms(3)]
  have "ID a' = ID a" and "initializers a' = initializers a"
    using s by simp_all
  then have t: "newThread a' Background = newThread a Background"
    by (rule newThread_same)
  have g': "globals a' = (globals a)(Clean E path \<mapsto> g)" using s by simp
  show "schemaFile a' \<noteq> ''''
      \<and> (\<exists>v sch. starlark_Call E (newThread a' Background) f [] = CallValue v
            \<and> FromStarlark E v h = Inr sch \<and> schema a' = Some sch
            \<and> Marshal E sch = Inr (schemaJSON a'))"
  proof (cases "function_named g (SchemaFunctionName E)")
    case None
    then have "p \<noteq> Clean E path" using p f g' by auto
    then have old: "globals a p = Some h" using p g' by simp
    have same: "schema a' = schema a" "schemaJSON a' = schemaJSON a"
      "schemaFile a' = schemaFile a"
      using s None by simp_all
    show ?thesis
      unfolding t same
      using schema_cachedD [OF assms(1) clean old f] by simp
  next
    case (Some f')
    then have empty: "schemaFile a = ''''" using s by simp
    have here: "p = Clean E path"
    proof (rule ccontr)
      assume "p \<noteq> Clean E path"
      then have "globals a p = Some h" using p g' by simp
      then show False using schema_cachedD(1) [OF assms(1) clean _ f] empty by simp
    qed
    then have h: "h = g" using p g' by simp
    then have ff: "f' = f" using f Some by simp
    have new: "schemaFile a' = Clean E path"
      "\<exists>v sch. starlark_Call E (newThread a Background) f' [] = CallValue v
           \<and> FromStarlark E v g = Inr sch \<and> schema a' = Some sch
           \<and> Marshal E sch = Inr (schemaJSON a')"
      using s Some by simp_all
    show ?thesis
      unfolding t h using new clean ff by simp
  qed
qed

text \<open>
  C8. Two constructions from file sets with the same files (each path once), the same
  directories and the same read errors, in whatever order they are held, by two runs of
  the interpreter that behave the same for a load: the two are the same, error or applet,
  so the strings \<^verbatim>\<open>GetSchema\<close> returns are equal. And for every constructed applet
  (options that add no bindings, \<^verbatim>\<open>filepath.Clean\<close> never empty) and every loaded file
  that exports a schema constructor: the load called the constructor with no argument
  and got a value, the recorded schema is what \<^verbatim>\<open>schema.FromStarlark\<close> made of that
  value, and \<^verbatim>\<open>GetSchema\<close> returns the bytes \<^verbatim>\<open>json.Marshal\<close> returned for it.
\<close>

theorem schema_json_cached:
  assumes "set (files fs1) = set (files fs2)"
    and "distinct (map fst (files fs1))" and "distinct (map fst (files fs2))"
    and "set (directories fs1) = set (directories fs2)"
    and "read_error fs1 = read_error fs2"
  shows "(same_load_behaviour E1 E2 \<longrightarrow>
            NewAppletFromFS E1 ident fs1 opts = NewAppletFromFS E2 ident fs2 opts
            \<and> (NewAppletFromFS E1 ident fs1 opts = Inr app1
                \<and> NewAppletFromFS E2 ident fs2 opts = Inr app2 \<longrightarrow>
                GetSchema app1 = GetSchema app2))
    \<and> (NewAppletFromFS E1 ident fs1 opts = Inr app
        \<and> apply_options opts (empty_applet ident) = Inr a0 \<and> globals a0 = Map.empty
        \<and> (\<forall>p. Clean E1 p \<noteq> '''')
        \<and> globals app path = Some g
        \<and> function_named g (SchemaFunctionName E1) = Some f \<longrightarrow>
        (\<exists>v sch. starlark_Call E1 (newThread app Background) f [] = CallValue v
           \<and> FromStarlark E1 v g = Inr sch \<and> schema app = Some sch
           \<and> Marshal E1 sch = Inr (GetSchema app)))"
proof (intro conjI impI)
  assume same: "same_load_behaviour E1 E2"
  have "NewAppletFromFS E1 ident fs1 opts = NewAppletFromFS E2 ident fs1 opts"
    using same by (rule same_behaviour_construction)
  also have "\<dots> = NewAppletFromFS E2 ident fs2 opts"
    using assms by (rule same_files_construction)
  finally show eq: "NewAppletFromFS E1 ident fs1 opts = NewAppletFromFS E2 ident fs2 opts" .
  show "GetSchema app1 = GetSchema app2"
    if "NewAppletFromFS E1 ident fs1 opts = Inr app1
        \<and> NewAppletFromFS E2 ident fs2 opts = Inr app2"
    using that eq by auto
next
  assume h: "NewAppletFromFS E1 ident fs1 opts = Inr app
        \<and> apply_options opts (empty_applet ident) = Inr a0 \<and> globals a0 = Map.empty
        \<and> (\<forall>p. Clean E1 p \<noteq> '''')
        \<and> globals app path = Some g
        \<and> function_named g (SchemaFunctionName E1) = Some f"
  have "schema_cached E1 app"
  proof (rule construction_invariant [where I = schema_cached])
    show "schema_cached E a'"
      if "schema_cached E a" and "globals a (Clean E path) = None"
        and "store_globals E a (Clean E path) g = (a', None)"
      for E a path g a'
      using that by (rule store_globals_cached)
    show "apply_options opts (empty_applet ident) = Inr a0" using h by simp
    show "schema_cached E1 a0" using h by (simp add: schema_cached_def)
    show "NewAppletFromFS E1 ident fs1 opts = Inr app" using h by simp
  qed
  then have "\<exists>v sch. starlark_Call E1 (newThread app Background) f [] = CallValue v
           \<and> FromStarlark E1 v g = Inr sch \<and> schema app = Some sch
           \<and> Marshal E1 sch = Inr (schemaJSON app)"
    using h by (intro schema_cachedD(2) [of E1 app path g f]) simp_all
  then show "\<exists>v sch. starlark_Call E1 (newThread app Background) f [] = CallValue v
           \<and> FromStarlark E1 v g = Inr sch \<and> schema app = Some sch
           \<and> Marshal E1 sch = Inr (GetSchema app)"
    by (simp add: GetSchema_def)
qed

lemma schema_fs_applet:
  "NewAppletFromFS test_clean ''test'' schema_fs [] =
     Inr ((empty_applet ''test'')
            \<lparr>globals := [''main.star'' \<mapsto>
                [''main'' \<mapsto> VFunction (test_main 0),
                 ''get_schema'' \<mapsto> VFunction (Fn ''get_schema'' 0 ''main.star:5:5'' 6)]],
             mainFile := ''main.star'', mainFun := Some (test_main 0),
             schemaFile := ''main.star'', schema := Some test_schema,
             schemaJSON := ''{fields: location}''\<rparr>)"
  by (simp add: NewAppletFromFS_def load_def root_files_def schema_fs_def test_fs_def
      HasSuffix_def ensureLoaded.simps test_clean_def test_def ReadFile_def test_ExecFile_def
      store_globals_def record_main_def record_schema_def function_named_def
      empty_applet_def Call_def Call_body_def test_Call_def test_schema_def)

lemma schema_fs_applet_later:
  "NewAppletFromFS test_later ''test'' schema_fs [] =
     Inr ((empty_applet ''test'')
            \<lparr>globals := [''main.star'' \<mapsto>
                [''main'' \<mapsto> VFunction (test_main 0),
                 ''get_schema'' \<mapsto> VFunction (Fn ''get_schema'' 0 ''main.star:5:5'' 6)]],
             mainFile := ''main.star'', mainFun := Some (test_main 0),
             schemaFile := ''main.star'', schema := Some (test_schema\<lparr>Fields := ''later''\<rparr>),
             schemaJSON := ''{fields: later}''\<rparr>)"
  by (simp add: NewAppletFromFS_def load_def root_files_def schema_fs_def test_fs_def
      HasSuffix_def ensureLoaded.simps test_later_def test_clean_def test_def ReadFile_def
      test_ExecFile_def store_globals_def record_main_def record_schema_def
      function_named_def empty_applet_def Call_def Call_body_def test_Call_def
      test_schema_def)

theorem schema_json_cached_witness:
  "NewAppletFromFS test_clean ''test'' schema_fs []
     = NewAppletFromFS test_other ''test'' schema_fs' []
   \<and> starlark_Call test_clean (newThread (empty_applet ''test'') Background)
        (Fn ''get_schema'' 0 ''main.star:5:5'' 6) [] = CallValue (VOther ''Schema'')
   \<and> Marshal test_clean test_schema = Inr ''{fields: location}''
   \<and> map_sum id GetSchema (NewAppletFromFS test_clean ''test'' schema_fs [])
       = Inr ''{fields: location}''"
proof -
  let ?g = "[''main'' \<mapsto> VFunction (test_main 0),
             ''get_schema'' \<mapsto> VFunction (Fn ''get_schema'' 0 ''main.star:5:5'' 6)]"
  let ?f = "Fn ''get_schema'' 0 ''main.star:5:5'' 6"
  obtain app where app: "NewAppletFromFS test_clean ''test'' schema_fs [] = Inr app"
    and gl: "globals app ''main.star'' = Some ?g"
    and th: "newThread app Background = newThread (empty_applet ''test'') Background"
    using schema_fs_applet by (simp add: newThread_def empty_applet_def)
  have f: "set (files schema_fs) = set (files schema_fs')"
    "distinct (map fst (files schema_fs))" "distinct (map fst (files schema_fs'))"
    "set (directories schema_fs) = set (directories schema_fs')"
    "read_error schema_fs = read_error schema_fs'"
    by (auto simp: schema_fs_def schema_fs'_def test_fs_def)
  have b: "same_load_behaviour test_clean test_other"
    by (simp add: same_load_behaviour_def test_other_def test_clean_def test_def)
  have o: "apply_options [] (empty_applet ''test'') = Inr (empty_applet ''test'')" by simp
  have e: "globals (empty_applet ''test'') = Map.empty" by (simp add: empty_applet_def)
  have c: "\<forall>p. Clean test_clean p \<noteq> ''''" by (simp add: test_clean_def)
  have n: "function_named ?g (SchemaFunctionName test_clean) = Some ?f"
    by (simp add: function_named_def test_clean_def test_def)
  have call: "starlark_Call test_clean (newThread (empty_applet ''test'') Background) ?f []
      = CallValue (VOther ''Schema'')"
    by (simp add: test_clean_def test_def test_Call_def)
  have conv: "FromStarlark test_clean (VOther ''Schema'') ?g = Inr test_schema"
    by (simp add: test_clean_def test_def)
  have marshal: "Marshal test_clean test_schema = Inr ''{fields: location}''"
    by (simp add: test_clean_def test_def test_schema_def)
  note t = schema_json_cached [OF f, of test_clean test_other "''test''" "[]" app app app
      "empty_applet ''test''" "''main.star''" ?g ?f]
  have same: "NewAppletFromFS test_clean ''test'' schema_fs []
     = NewAppletFromFS test_other ''test'' schema_fs' []"
    using t b by blast
  have "\<exists>v sch. starlark_Call test_clean (newThread app Background) ?f [] = CallValue v
           \<and> FromStarlark test_clean v ?g = Inr sch \<and> schema app = Some sch
           \<and> Marshal test_clean sch = Inr (GetSchema app)"
    using t app o e c gl n by blast
  then obtain v sch where
    v: "starlark_Call test_clean (newThread app Background) ?f [] = CallValue v"
    and sch: "FromStarlark test_clean v ?g = Inr sch"
    and m: "Marshal test_clean sch = Inr (GetSchema app)"
    by blast
  have "v = VOther ''Schema''" using v call th by simp
  then have "sch = test_schema" using sch conv by simp
  then have "GetSchema app = ''{fields: location}''" using m marshal by simp
  then have "map_sum id GetSchema (NewAppletFromFS test_clean ''test'' schema_fs [])
       = Inr ''{fields: location}''"
    using app by simp
  then show ?thesis using same call marshal by blast
qed

text \<open>
  The same source bytes do not fix the schema JSON. The file set \<^verbatim>\<open>schema_fs\<close> is loaded
  twice by collaborators that differ only in the value the call of the schema constructor
  returns (a constructor that reads the clock, a random number, an HTTP response or the
  cache gets another value at another time), and \<^verbatim>\<open>GetSchema\<close> returns two different
  strings.
\<close>

theorem schema_json_not_deterministic:
  "map_sum id GetSchema (NewAppletFromFS test_clean ''test'' schema_fs [])
     = Inr ''{fields: location}''
   \<and> map_sum id GetSchema (NewAppletFromFS test_later ''test'' schema_fs [])
     = Inr ''{fields: later}''
   \<and> map_sum id GetSchema (NewAppletFromFS test_clean ''test'' schema_fs [])
     \<noteq> map_sum id GetSchema (NewAppletFromFS test_later ''test'' schema_fs [])
   \<and> Clean test_later = Clean test_clean
   \<and> ExecFileOptions test_later = ExecFileOptions test_clean
   \<and> FromStarlark test_later = FromStarlark test_clean
   \<and> Marshal test_later = Marshal test_clean
   \<and> SchemaFunctionName test_later = SchemaFunctionName test_clean"
proof -
  have "map_sum id GetSchema (NewAppletFromFS test_clean ''test'' schema_fs [])
     = Inr ''{fields: location}''"
    by (simp add: schema_fs_applet GetSchema_def)
  moreover have "map_sum id GetSchema (NewAppletFromFS test_later ''test'' schema_fs [])
     = Inr ''{fields: later}''"
    by (simp add: schema_fs_applet_later GetSchema_def)
  moreover have "Clean test_later = Clean test_clean
   \<and> ExecFileOptions test_later = ExecFileOptions test_clean
   \<and> FromStarlark test_later = FromStarlark test_clean
   \<and> Marshal test_later = Marshal test_clean
   \<and> SchemaFunctionName test_later = SchemaFunctionName test_clean"
    by (simp add: test_later_def)
  ultimately show ?thesis by simp
qed

section \<open>Applets with no schema\<close>

lemma store_globals_no_constructor:
  "function_named g (SchemaFunctionName E) = None \<Longrightarrow> store_globals E a path g = (a', r) \<Longrightarrow>
   schema a' = schema a"
  by (auto simp: store_globals_def record_main_def record_schema_def
      split: option.splits if_splits sum.splits)

lemma store_globals_constructed:
  assumes "schema_constructed E a" and "globals a path = None"
    and "store_globals E a path g = (a', None)"
  shows "schema_constructed E a'"
proof -
  have g': "globals a' = (globals a)(path \<mapsto> g)"
    using assms(3) by (rule store_globals_globals)
  show ?thesis
  proof (cases "function_named g (SchemaFunctionName E)")
    case (Some f)
    then have "globals a' path = Some g \<and> function_named g (SchemaFunctionName E) \<noteq> None"
      using g' by simp
    then show ?thesis unfolding schema_constructed_def by blast
  next
    case None
    then have s: "schema a' = schema a"
      using assms(3) by (rule store_globals_no_constructor)
    show ?thesis
    proof (cases "schema a")
      case None
      then show ?thesis using s by (simp add: schema_constructed_def)
    next
      case (Some sch)
      then obtain p g0 where w: "globals a p = Some g0"
          "function_named g0 (SchemaFunctionName E) \<noteq> None"
        using assms(1) by (auto simp: schema_constructed_def)
      then have "p \<noteq> path" using assms(2) by auto
      then have "globals a' p = Some g0" using g' w(1) by simp
      then show ?thesis using w(2) unfolding schema_constructed_def by blast
    qed
  qed
qed

lemma construction_no_constructor:
  assumes "NewAppletFromFS E ident fs opts = Inr app"
    and "apply_options opts (empty_applet ident) = Inr a0" and "schema a0 = None"
    and "\<forall>path g. globals app path = Some g \<longrightarrow> function_named g (SchemaFunctionName E) = None"
  shows "schema app = None"
proof -
  have "schema_constructed E app"
  proof (rule construction_invariant [where I = schema_constructed])
    show "schema_constructed E a'"
      if "schema_constructed E a" and "globals a (Clean E path) = None"
        and "store_globals E a (Clean E path) g = (a', None)"
      for E a path g a'
      using that by (rule store_globals_constructed)
    show "apply_options opts (empty_applet ident) = Inr a0" by fact
    show "schema_constructed E a0" using assms(3) by (simp add: schema_constructed_def)
    show "NewAppletFromFS E ident fs opts = Inr app" by fact
  qed
  then show ?thesis using assms(4) by (auto simp: schema_constructed_def)
qed

text \<open>
  C9. With no schema recorded, \<^verbatim>\<open>CallSchemaHandler\<close> panics on the nil pointer, for every
  handler name, before any call of the interpreter; it does not return the error of an
  unknown handler. That is the case of every applet that was constructed, with options
  that leave the schema unset, from files none of which exports a schema constructor.
\<close>

theorem CallSchemaHandler_no_schema:
  "(schema app = None \<longrightarrow>
      CallSchemaHandler E app ctx handlerName parameter = ([], Panics nil_dereference)
      \<and> snd (CallSchemaHandler E app ctx handlerName parameter)
          \<noteq> Returns ('''', Some (NoExportedHandler handlerName)))
   \<and> (NewAppletFromFS E ident fs opts = Inr app
       \<and> apply_options opts (empty_applet ident) = Inr a0 \<and> schema a0 = None
       \<and> (\<forall>path g. globals app path = Some g \<longrightarrow>
             function_named g (SchemaFunctionName E) = None) \<longrightarrow>
       schema app = None
       \<and> CallSchemaHandler E app ctx handlerName parameter = ([], Panics nil_dereference))"
proof -
  have 1: "CallSchemaHandler E app ctx handlerName parameter = ([], Panics nil_dereference)"
    if "schema app = None"
    using that by (simp add: CallSchemaHandler_def)
  have 2: "schema app = None"
    if "NewAppletFromFS E ident fs opts = Inr app
       \<and> apply_options opts (empty_applet ident) = Inr a0 \<and> schema a0 = None
       \<and> (\<forall>path g. globals app path = Some g \<longrightarrow>
             function_named g (SchemaFunctionName E) = None)"
    using that construction_no_constructor [of E ident fs opts app a0] by blast
  show ?thesis using 1 2 by simp
qed

lemma test_single_file:
  "NewAppletFromFS test ''test'' (test_fs [(''main.star'', ''def main'')] [''.'']) [] =
     Inr ((empty_applet ''test'')
            \<lparr>globals := [''main.star'' \<mapsto> [''main'' \<mapsto> VFunction (test_main 0)]],
             mainFile := ''main.star'', mainFun := Some (test_main 0)\<rparr>)"
  by (simp add: NewAppletFromFS_def load_def root_files_def test_fs_def HasSuffix_def
      ensureLoaded.simps test_def ReadFile_def test_ExecFile_def store_globals_def
      record_main_def record_schema_def function_named_def empty_applet_def)

theorem CallSchemaHandler_no_schema_witness:
  "NewAppletFromFS test ''test'' (test_fs [(''main.star'', ''def main'')] [''.'']) [] =
     Inr ((empty_applet ''test'')
            \<lparr>globals := [''main.star'' \<mapsto> [''main'' \<mapsto> VFunction (test_main 0)]],
             mainFile := ''main.star'', mainFun := Some (test_main 0)\<rparr>)
   \<and> CallSchemaHandler test
        ((empty_applet ''test'')
            \<lparr>globals := [''main.star'' \<mapsto> [''main'' \<mapsto> VFunction (test_main 0)]],
             mainFile := ''main.star'', mainFun := Some (test_main 0)\<rparr>)
        Background ''get_options'' ''x'' = ([], Panics nil_dereference)"
proof -
  let ?app = "(empty_applet ''test'')
            \<lparr>globals := [''main.star'' \<mapsto> [''main'' \<mapsto> VFunction (test_main 0)]],
             mainFile := ''main.star'', mainFun := Some (test_main 0)\<rparr>"
  have o: "apply_options [] (empty_applet ''test'') = Inr (empty_applet ''test'')" by simp
  have n: "schema (empty_applet ''test'') = None" by (simp add: empty_applet_def)
  have g: "\<forall>path g. globals ?app path = Some g \<longrightarrow>
      function_named g (SchemaFunctionName test) = None"
    by (auto simp: function_named_def test_def split: if_splits)
  note inst = CallSchemaHandler_no_schema [of ?app test Background "''get_options''" "''x''"
      "''test''" "test_fs [(''main.star'', ''def main'')] [''.'']" "[]" "empty_applet ''test''"]
  have "CallSchemaHandler test ?app Background ''get_options'' ''x'' = ([], Panics nil_dereference)"
    using inst test_single_file o n g by blast
  then show ?thesis using test_single_file by simp
qed

section \<open>Entry points\<close>

text \<open>
  What holds of the entry point, for files of the root and files that are imported
  alike: a constructed applet has one; when the load of a root file ends with bindings
  that hold a function \<open>main\<close> and a file with one is on record, the construction fails
  with the error that names the two files; when every root file loads and no loaded file
  exports a function \<open>main\<close>, it fails with the error of the missing entry point.
\<close>

lemma constructed_has_main:
  "NewAppletFromFS E ident fs opts = Inr app \<Longrightarrow> mainFun app \<noteq> None"
  by (auto simp: NewAppletFromFS_def load_def split: sum.splits prod.splits option.splits
      if_splits)

lemma second_main_refused:
  assumes "apply_options opts (empty_applet ident) = Inr a0"
    and "root_files fs = before @ path # rest"
    and "walk E fs a0 before = (a, None)"
    and "HasSuffix path ''.star''"
    and "globals a (Clean E path) = None"
    and "ReadFile fs (Clean E path) = Inr src"
    and "exec E fs a (newThread a Background) [Clean E path]
           (ExecFileOptions E (newThread a Background) (ID a) src) = (a1, ExecGlobals g)"
    and "function_named g ''main'' = Some f"
    and "mainFile a1 \<noteq> ''''"
  shows "NewAppletFromFS E ident fs opts = Inl (MultipleMain (Clean E path) (mainFile a1))"
proof -
  have "ensureLoaded E fs a path [] = store_globals E a1 (Clean E path) g"
    using ensureLoaded_run [of a E path "[]" fs src a1 "ExecGlobals g"] assms(5-7) by simp
  also have "\<dots> = (a1\<lparr>globals := (globals a1)(Clean E path \<mapsto> g)\<rparr>,
      Some (MultipleMain (Clean E path) (mainFile a1)))"
    using assms(8,9) by (simp add: store_globals_def record_main_def)
  finally show ?thesis
    using load_fails_at [OF assms(1-4)] by simp
qed

lemma store_globals_no_main:
  "function_named g ''main'' = None \<Longrightarrow> store_globals E a path g = (a', r) \<Longrightarrow>
   mainFun a' = mainFun a"
  by (auto simp: store_globals_def record_main_def record_schema_def Let_def
      split: option.splits if_splits sum.splits outcome.splits)

lemma store_globals_main_recorded:
  assumes "main_recorded a" and "globals a path = None"
    and "store_globals E a path g = (a', None)"
  shows "main_recorded a'"
proof -
  have g': "globals a' = (globals a)(path \<mapsto> g)"
    using assms(3) by (rule store_globals_globals)
  show ?thesis
  proof (cases "function_named g ''main''")
    case (Some f)
    then have "globals a' path = Some g \<and> function_named g ''main'' \<noteq> None"
      using g' by simp
    then show ?thesis unfolding main_recorded_def by blast
  next
    case None
    then have s: "mainFun a' = mainFun a"
      using assms(3) by (rule store_globals_no_main)
    show ?thesis
    proof (cases "mainFun a")
      case None
      then show ?thesis using s by (simp add: main_recorded_def)
    next
      case (Some f)
      then obtain p g0 where w: "globals a p = Some g0" "function_named g0 ''main'' \<noteq> None"
        using assms(1) by (auto simp: main_recorded_def)
      then have "p \<noteq> path" using assms(2) by auto
      then have "globals a' p = Some g0" using g' w(1) by simp
      then show ?thesis using w(2) unfolding main_recorded_def by blast
    qed
  qed
qed

lemma no_main_refused:
  assumes "apply_options opts (empty_applet ident) = Inr a0" and "mainFun a0 = None"
    and "walk E fs a0 (root_files fs) = (a1, None)"
    and "\<forall>path g. globals a1 path = Some g \<longrightarrow> function_named g ''main'' = None"
  shows "NewAppletFromFS E ident fs opts = Inl (NoMain (ID a1))"
proof -
  have "main_recorded a1"
  proof (rule walk_invariant [where I = "\<lambda>E. main_recorded", OF _ assms(3)])
    show "main_recorded a'"
      if "main_recorded a" and "globals a (Clean E path) = None"
        and "store_globals E a (Clean E path) g = (a', None)"
      for E a path g a'
      using that by (rule store_globals_main_recorded)
    show "main_recorded a0" using assms(2) by (simp add: main_recorded_def)
  qed
  then have "mainFun a1 = None" using assms(4) by (auto simp: main_recorded_def)
  then show ?thesis using assms(1,3) by (simp add: NewAppletFromFS_def load_def)
qed

text \<open>
  C3, where the code departs from it. \<^verbatim>\<open>ensureLoaded\<close> looks for \<open>main\<close> in every file
  it loads, also in a file of a directory that a root file imports. So an applet whose
  only root file has no \<open>main\<close> is constructed, with the entry point of the imported
  file; and an applet with one root file that has a \<open>main\<close> is refused for two of them
  when another root file imports such a file.
\<close>

theorem entry_point_outside_root:
  "root_files nested_main_fs = [''a.star'']
   \<and> NewAppletFromFS test ''test'' nested_main_fs [] =
       Inr ((empty_applet ''test'')
              \<lparr>globals := [''lib/b.star'' \<mapsto> [''main'' \<mapsto> VFunction (test_main 0)],
                           ''a.star'' \<mapsto> Map.empty],
               mainFile := ''lib/b.star'', mainFun := Some (test_main 0)\<rparr>)
   \<and> root_files second_main_fs = [''main.star'', ''z.star'']
   \<and> NewAppletFromFS test ''test'' second_main_fs [] =
       Inl (ExecFileError (CannotLoad ''lib/b.star'' (MultipleMain ''lib/b.star'' ''main.star'')))"
  by (simp add: NewAppletFromFS_def load_def root_files_def nested_main_fs_def
      second_main_fs_def test_fs_def HasSuffix_def ensureLoaded.simps test_def ReadFile_def
      Stat_def test_ExecFile_def store_globals_def record_main_def record_schema_def
      function_named_def empty_applet_def less_eq_list_code less_list_code)

end
